theory Spec2Isabelle
  imports Complex_Main "HOL-Library.Sublist" "HOL-Library.AList"
begin

section \<open>Common conventions\<close>

text \<open>
  Go's \<open>time.Time\<close> is modelled as an integer number of nanoseconds and
  \<open>time.Duration\<close> as an integer number of nanoseconds. Every call of
  \<open>time.Now()\<close> in the source is a separate argument of the model, so that no
  theorem depends on two clock readings being equal. Go's \<open>int\<close> and \<open>int64\<close>
  counters are modelled as \<open>int\<close>: they start at zero and advance by one per call, so
  they stay far below \<open>2^63\<close>. Each exported operation is one step on the state of its
  engine; the periodic sweeps that the constructors start in the background are
  operations of their own and do not occur inside a step.
\<close>

type_synonym time = int
type_synonym duration = int

definition Nanosecond :: duration where "Nanosecond = 1"
definition Second :: duration where "Second = 1000000000"
definition Minute :: duration where "Minute = 60 * Second"
definition Hour :: duration where "Hour = 60 * Minute"

definition maxDuration :: duration where "maxDuration = 2 ^ 63 - 1"
definition minDuration :: duration where "minDuration = - (2 ^ 63)"

text \<open>\<open>t.Sub(u)\<close> of package time: the difference, saturated to the range of a Duration.\<close>

definition time_Sub :: "time \<Rightarrow> time \<Rightarrow> duration" where
  "time_Sub t u = (if t - u > maxDuration then maxDuration
                   else if t - u < minDuration then minDuration else t - u)"

definition time_After :: "time \<Rightarrow> time \<Rightarrow> bool" where
  "time_After t u = (t > u)"

definition time_Before :: "time \<Rightarrow> time \<Rightarrow> bool" where
  "time_Before t u = (t < u)"

definition time_Add :: "time \<Rightarrow> duration \<Rightarrow> time" where
  "time_Add t d = t + d"

section \<open>Proof-of-work engine (backend/pkg/pow/proof\_of\_work.go)\<close>

text \<open>
  Failures of the package: the two errors returned by \<open>Verify\<close>, the error of the
  reference solver, and the run-time panic of \<open>strings.Repeat\<close> on a negative count.
\<close>

datatype pow_error =
    ChallengeNotFound
  | ChallengeExpired
  | SolveFailed int
  | PanicNegativeRepeat

record Challenge =
  ID :: string
  Nonce :: string
  Difficulty :: int
  CreatedAt :: time
  ExpiresAt :: time
  Solution :: string

record ProofOfWork =
  challenges :: "string \<rightharpoonup> Challenge"
  difficulty :: int

definition NewProofOfWork :: "int \<Rightarrow> ProofOfWork" where
  "NewProofOfWork d =
     \<lparr>challenges = Map.empty, difficulty = (if d = 0 then 4 else d)\<rparr>"

text \<open>
  \<open>strings.Repeat(s, count)\<close> of the Go standard library: \<open>count\<close> copies of \<open>s\<close>;
  it panics when \<open>count\<close> is negative.
\<close>

definition strings_Repeat :: "string \<Rightarrow> int \<Rightarrow> pow_error + string" where
  "strings_Repeat s count =
     (if count < 0 then Inl PanicNegativeRepeat
      else Inr (concat (replicate (nat count) s)))"

definition strings_HasPrefix :: "string \<Rightarrow> string \<Rightarrow> bool" where
  "strings_HasPrefix s p = prefix p s"

text \<open>
  \<open>computeHash\<close>: the hexadecimal SHA-256 digest of nonce followed by solution. The
  digest function of crypto/sha256 composed with hex.EncodeToString is the parameter \<open>H\<close>.
\<close>

definition computeHash :: "(string \<Rightarrow> string) \<Rightarrow> string \<Rightarrow> string \<Rightarrow> string" where
  "computeHash H nonce solution = H (nonce @ solution)"

definition verifyHash :: "string \<Rightarrow> int \<Rightarrow> pow_error + bool" where
  "verifyHash hash d =
     (case strings_Repeat ''0'' d of
        Inl e \<Rightarrow> Inl e
      | Inr pfx \<Rightarrow> Inr (strings_HasPrefix hash pfx))"

text \<open>
  \<open>GenerateChallenge\<close>: the random nonce, the generated identifier and the two clock
  readings (for \<open>CreatedAt\<close> and for \<open>ExpiresAt\<close>) are arguments.
\<close>

definition GenerateChallenge ::
  "ProofOfWork \<Rightarrow> string \<Rightarrow> string \<Rightarrow> time \<Rightarrow> time \<Rightarrow> Challenge \<times> ProofOfWork" where
  "GenerateChallenge p cid nonce t1 t2 =
     (let challenge = \<lparr>ID = cid, Nonce = nonce, Difficulty = difficulty p,
                        CreatedAt = t1, ExpiresAt = time_Add t2 (10 * Minute),
                        Solution = ''''\<rparr>
      in (challenge, p\<lparr>challenges := (challenges p)(cid \<mapsto> challenge)\<rparr>))"

text \<open>
  \<open>Verify\<close> returns the pair of Go results as a sum (\<open>Inl\<close> for \<open>(false, err)\<close> and
  for a panic, \<open>Inr valid\<close> for \<open>(valid, nil)\<close>) together with the engine afterwards.
\<close>

definition Verify ::
  "(string \<Rightarrow> string) \<Rightarrow> ProofOfWork \<Rightarrow> string \<Rightarrow> string \<Rightarrow> time
     \<Rightarrow> (pow_error + bool) \<times> ProofOfWork" where
  "Verify H p challengeID solution now =
     (case challenges p challengeID of
        None \<Rightarrow> (Inl ChallengeNotFound, p)
      | Some challenge \<Rightarrow>
          if time_After now (ExpiresAt challenge)
          then (Inl ChallengeExpired, p\<lparr>challenges := (challenges p)(challengeID := None)\<rparr>)
          else (case verifyHash (computeHash H (Nonce challenge) solution) (Difficulty challenge) of
                  Inl e \<Rightarrow> (Inl e, p)
                | Inr valid \<Rightarrow>
                    if valid
                    then (Inr True, p\<lparr>challenges := (challenges p)(challengeID := None)\<rparr>)
                    else (Inr False, p)))"

definition GetChallenge :: "ProofOfWork \<Rightarrow> string \<Rightarrow> pow_error + Challenge" where
  "GetChallenge p challengeID =
     (case challenges p challengeID of
        None \<Rightarrow> Inl ChallengeNotFound
      | Some challenge \<Rightarrow> Inr challenge)"

definition SetDifficulty :: "ProofOfWork \<Rightarrow> int \<Rightarrow> ProofOfWork" where
  "SetDifficulty p d = p\<lparr>difficulty := d\<rparr>"

text \<open>\<open>fmt.Sprintf("%d", n)\<close>: the decimal numeral of an integer.\<close>

fun decimal :: "nat \<Rightarrow> string" where
  "decimal n = (if n < 10 then [char_of (48 + n)]
                else decimal (n div 10) @ [char_of (48 + n mod 10)])"

declare decimal.simps [simp del]

definition Sprintf_d :: "int \<Rightarrow> string" where
  "Sprintf_d i = (if i < 0 then CHR ''-'' # decimal (nat (- i)) else decimal (nat i))"

definition maxAttempts :: int where "maxAttempts = 10000000"

text \<open>The search loop of \<open>SolveChallenge\<close>, from the current value of \<open>attempts\<close>.\<close>

function SolveChallenge_loop ::
  "(string \<Rightarrow> string) \<Rightarrow> string \<Rightarrow> string \<Rightarrow> int \<Rightarrow> pow_error + string" where
  "SolveChallenge_loop H nonce pfx attempts =
     (if attempts < maxAttempts
      then (let solution = Sprintf_d attempts;
                hash = computeHash H nonce solution
            in if strings_HasPrefix hash pfx then Inr solution
               else SolveChallenge_loop H nonce pfx (attempts + 1))
      else Inl (SolveFailed maxAttempts))"
  by pat_completeness auto
termination
  by (relation "measure (\<lambda>(H, nonce, pfx, attempts). nat (maxAttempts - attempts))") auto

declare SolveChallenge_loop.simps [simp del]

definition SolveChallenge :: "(string \<Rightarrow> string) \<Rightarrow> string \<Rightarrow> int \<Rightarrow> pow_error + string" where
  "SolveChallenge H nonce d =
     (case strings_Repeat ''0'' d of
        Inl e \<Rightarrow> Inl e
      | Inr pfx \<Rightarrow> SolveChallenge_loop H nonce pfx 0)"

text \<open>
  \<open>AdaptiveDifficulty\<close>. The controller points to the engine it retunes; in the model
  the engine is the field \<open>pow\<close>, read back after each call. The load is a
  \<open>float64\<close>; the model takes a rational load (no NaN, no infinity).
  \<open>baselineLoad\<close> is always \<open>50.0\<close>, for which the three products of the source are
  the exact values 75, 60 and 25.
\<close>

record AdaptiveDifficulty =
  pow :: ProofOfWork
  baselineLoad :: rat
  currentLoad :: rat
  baseDifficulty :: int
  maxDifficulty :: int
  minDifficulty :: int

definition NewAdaptiveDifficulty :: "ProofOfWork \<Rightarrow> int \<Rightarrow> AdaptiveDifficulty" where
  "NewAdaptiveDifficulty p b =
     \<lparr>pow = p, baselineLoad = 50, currentLoad = 50, baseDifficulty = b,
      maxDifficulty = b + 2, minDifficulty = b - 1\<rparr>"

definition UpdateLoad :: "AdaptiveDifficulty \<Rightarrow> rat \<Rightarrow> AdaptiveDifficulty" where
  "UpdateLoad ad load =
     (let newDifficulty =
            (if load > baselineLoad ad * (3 / 2) then baseDifficulty ad + 2
             else if load > baselineLoad ad * (6 / 5) then baseDifficulty ad + 1
             else if load < baselineLoad ad * (1 / 2) then baseDifficulty ad - 1
             else baseDifficulty ad);
          newDifficulty = (if newDifficulty > maxDifficulty ad then maxDifficulty ad
                           else newDifficulty);
          newDifficulty = (if newDifficulty < minDifficulty ad then minDifficulty ad
                           else newDifficulty)
      in ad\<lparr>currentLoad := load, pow := SetDifficulty (pow ad) newDifficulty\<rparr>)"

definition GetCurrentDifficulty :: "AdaptiveDifficulty \<Rightarrow> int" where
  "GetCurrentDifficulty ad = difficulty (pow ad)"

text \<open>
  A small stand-in digest, used only to evaluate the definitions on concrete inputs:
  as many zero digits as the input is long modulo 4, then a non-zero digit.
\<close>

definition toyH :: "string \<Rightarrow> string" where
  "toyH s = replicate (length s mod 4) CHR ''0'' @ ''f''"

text \<open>
  The spec's wording of the hash test: the number of leading zero digits of the
  hexadecimal digest, to be compared with the difficulty.
\<close>

definition leadingZeros :: "string \<Rightarrow> nat" where
  "leadingZeros h = length (takeWhile (\<lambda>c. c = CHR ''0'') h)"

section \<open>CAPTCHA service (backend/pkg/captcha/captcha.go)\<close>

text \<open>
  Failures of \<open>Generate\<close>: the three wrapped errors, and the two run-time panics of
  \<open>generateSolution\<close> (\<open>make\<close> with a negative length, an index outside the
  character set).
\<close>

datatype captcha_error =
    FailedToGenerateID
  | FailedToGenerateSolution
  | FailedToGenerateImage
  | PanicMakeSlice
  | PanicIndexOutOfRange

record CaptchaOptions =
  Length :: int
  Width :: int
  Height :: int
  TTL :: duration
  opt_Difficulty :: string

record CaptchaData =
  cap_ID :: string
  cap_Solution :: string
  ImageData :: "nat list"
  cap_CreatedAt :: time
  cap_ExpiresAt :: time

record CaptchaStore =
  captchas :: "string \<rightharpoonup> CaptchaData"

record CaptchaService =
  store :: CaptchaStore
  options :: CaptchaOptions

definition NewCaptchaStore :: CaptchaStore where
  "NewCaptchaStore = \<lparr>captchas = Map.empty\<rparr>"

definition store_Set :: "CaptchaStore \<Rightarrow> CaptchaData \<Rightarrow> CaptchaStore" where
  "store_Set s captcha = s\<lparr>captchas := (captchas s)(cap_ID captcha \<mapsto> captcha)\<rparr>"

definition store_Get :: "CaptchaStore \<Rightarrow> string \<Rightarrow> CaptchaData option" where
  "store_Get s cid = captchas s cid"

definition store_Delete :: "CaptchaStore \<Rightarrow> string \<Rightarrow> CaptchaStore" where
  "store_Delete s cid = s\<lparr>captchas := (captchas s)(cid := None)\<rparr>"

definition NewCaptchaService :: "CaptchaOptions \<Rightarrow> CaptchaService" where
  "NewCaptchaService opts =
     (let opts = (if Length opts = 0 then opts\<lparr>Length := 6\<rparr> else opts);
          opts = (if Width opts = 0 then opts\<lparr>Width := 200\<rparr> else opts);
          opts = (if Height opts = 0 then opts\<lparr>Height := 80\<rparr> else opts);
          opts = (if TTL opts = 0 then opts\<lparr>TTL := 5 * Minute\<rparr> else opts);
          opts = (if opt_Difficulty opts = [] then opts\<lparr>opt_Difficulty := ''medium''\<rparr>
                  else opts)
      in \<lparr>store = NewCaptchaStore, options = opts\<rparr>)"

definition solution_chars :: "string \<Rightarrow> string" where
  "solution_chars d =
     (if d = ''easy'' then ''ABCDEFGHJKLMNPQRSTUVWXYZ23456789''
      else if d = ''hard''
        then ''ABCDEFGHIJKLMNOPQRSTUVWXYZabcdefghijklmnopqrstuvwxyz0123456789''
      else ''ABCDEFGHJKLMNPQRSTUVWXYZ23456789'')"

text \<open>
  The loop of \<open>generateSolution\<close> from index \<open>i\<close> with \<open>k\<close> positions left.
  \<open>rnd i\<close> is the outcome of the call of \<open>rand.Int\<close> at index \<open>i\<close>: \<open>None\<close>
  when the random source fails, otherwise the number drawn.
\<close>

fun generateSolution_loop ::
  "string \<Rightarrow> (nat \<Rightarrow> nat option) \<Rightarrow> nat \<Rightarrow> nat \<Rightarrow> captcha_error + string" where
  "generateSolution_loop chars rnd i 0 = Inr []"
| "generateSolution_loop chars rnd i (Suc k) =
     (case rnd i of
        None \<Rightarrow> Inl FailedToGenerateSolution
      | Some n \<Rightarrow>
          if n < length chars
          then (case generateSolution_loop chars rnd (Suc i) k of
                  Inl e \<Rightarrow> Inl e
                | Inr rest \<Rightarrow> Inr (chars ! n # rest))
          else Inl PanicIndexOutOfRange)"

definition generateSolution ::
  "CaptchaService \<Rightarrow> (nat \<Rightarrow> nat option) \<Rightarrow> captcha_error + string" where
  "generateSolution s rnd =
     (let chars = solution_chars (opt_Difficulty (options s))
      in if Length (options s) < 0 then Inl PanicMakeSlice
         else generateSolution_loop chars rnd 0 (nat (Length (options s))))"

text \<open>
  \<open>Generate\<close>. Arguments: the outcome of \<open>generateRandomString(16)\<close> (\<open>None\<close>
  when the random source fails), the random draws of \<open>generateSolution\<close>, the image
  renderer \<open>generateImage\<close> as a function of the solution, and the clock reading.
\<close>

definition Generate ::
  "CaptchaService \<Rightarrow> string option \<Rightarrow> (nat \<Rightarrow> nat option)
     \<Rightarrow> (string \<Rightarrow> captcha_error + nat list) \<Rightarrow> time
     \<Rightarrow> (captcha_error + CaptchaData) \<times> CaptchaService" where
  "Generate s idr rnd generateImage now =
     (case idr of
        None \<Rightarrow> (Inl FailedToGenerateID, s)
      | Some cid \<Rightarrow>
          (case generateSolution s rnd of
             Inl e \<Rightarrow> (Inl e, s)
           | Inr solution \<Rightarrow>
               (case generateImage solution of
                  Inl e \<Rightarrow> (Inl e, s)
                | Inr imageData \<Rightarrow>
                    (let captcha = \<lparr>cap_ID = cid, cap_Solution = solution,
                                      ImageData = imageData, cap_CreatedAt = now,
                                      cap_ExpiresAt = time_Add now (TTL (options s))\<rparr>
                     in (Inr captcha, s\<lparr>store := store_Set (store s) captcha\<rparr>)))))"

definition Validate ::
  "CaptchaService \<Rightarrow> string \<Rightarrow> string \<Rightarrow> time \<Rightarrow> bool \<times> CaptchaService" where
  "Validate s cid solution now =
     (case store_Get (store s) cid of
        None \<Rightarrow> (False, s)
      | Some captcha \<Rightarrow>
          if time_After now (cap_ExpiresAt captcha)
          then (False, s\<lparr>store := store_Delete (store s) cid\<rparr>)
          else (let valid = (cap_Solution captcha = solution)
                in (valid, s\<lparr>store := store_Delete (store s) cid\<rparr>)))"

section \<open>Metrics aggregator (package metrics)\<close>

text \<open>
  Go maps whose length is read are association lists with distinct keys, in insertion
  order; \<open>m[k] = v\<close> is \<open>AList.update\<close> and \<open>len(m)\<close> is \<open>length\<close>.
\<close>

type_synonym ('k, 'v) gomap = "('k \<times> 'v) list"

definition increment :: "'k \<Rightarrow> ('k, int) gomap \<Rightarrow> ('k, int) gomap" where
  "increment k m = AList.update k ((case map_of m k of None \<Rightarrow> 0 | Some v \<Rightarrow> v) + 1) m"

record RequestMetrics =
  IP :: string
  Address :: string
  Amount :: int
  Success :: bool
  ErrorType :: string
  ResponseTime :: duration
  Timestamp :: time
  CaptchaSolved :: bool
  POWCompleted :: bool

text \<open>
  The \<open>float64\<close> field \<open>avgTokensPerRequest\<close> and the start time are left out of the
  tracker; every other field is kept.
\<close>

record MetricsTracker =
  totalRequests :: int
  successfulRequests :: int
  failedRequests :: int
  blockedRequests :: int
  totalTokensDistributed :: int
  requestsPerHour :: "(int, int) gomap"
  requestsPerDay :: "(string, int) gomap"
  uniqueAddresses :: "(string, bool) gomap"
  topRecipients :: "(string, int) gomap"
  uniqueIPs :: "(string, bool) gomap"
  requestsByCountry :: "(string, int) gomap"
  avgResponseTime :: duration
  responseTimes :: "duration list"
  maxResponseTime :: duration
  errorCounts :: "(string, int) gomap"

text \<open>
  The integer fields of \<open>Summary\<close> and its two copied maps. The \<open>float64\<close> fields
  (success rate, uptime, requests per hour) and the list of top recipients, which is built
  from a map iteration in unspecified order, are left out.
\<close>

record Summary =
  TotalRequests :: int
  SuccessfulRequests :: int
  FailedRequests :: int
  BlockedRequests :: int
  TotalTokensDistributed :: int
  UniqueAddresses :: int
  UniqueIPs :: int
  AvgResponseTime :: duration
  MaxResponseTime :: duration
  ErrorBreakdown :: "(string, int) gomap"
  HourlyDistribution :: "(int, int) gomap"

definition NewMetricsTracker :: MetricsTracker where
  "NewMetricsTracker =
     \<lparr>totalRequests = 0, successfulRequests = 0, failedRequests = 0, blockedRequests = 0,
      totalTokensDistributed = 0, requestsPerHour = [], requestsPerDay = [],
      uniqueAddresses = [], topRecipients = [], uniqueIPs = [], requestsByCountry = [],
      avgResponseTime = 0, responseTimes = [], maxResponseTime = 0, errorCounts = []\<rparr>"

text \<open>Go's integer division, which truncates towards zero.\<close>

definition go_quot :: "int \<Rightarrow> int \<Rightarrow> int" where
  "go_quot a b = sgn a * sgn b * (\<bar>a\<bar> div \<bar>b\<bar>)"

text \<open>
  \<open>RecordRequest\<close>, in the four blocks of its body. \<open>Time.Hour\<close> and
  \<open>Time.Format("2006-01-02")\<close> of package time are the parameters \<open>hourOf\<close> and
  \<open>dateOf\<close>.
\<close>

text \<open>The total, and the branch on \<open>metrics.Success\<close>.\<close>

definition recordOutcome :: "MetricsTracker \<Rightarrow> RequestMetrics \<Rightarrow> MetricsTracker" where
  "recordOutcome m0 metrics =
     (let m = m0\<lparr>totalRequests := totalRequests m0 + 1\<rparr>
      in if Success metrics
         then m\<lparr>successfulRequests := successfulRequests m + 1,
                totalTokensDistributed := totalTokensDistributed m + Amount metrics,
                uniqueAddresses := AList.update (Address metrics) True (uniqueAddresses m),
                topRecipients := increment (Address metrics) (topRecipients m)\<rparr>
         else if ErrorType metrics \<noteq> []
         then m\<lparr>failedRequests := failedRequests m + 1,
                errorCounts := increment (ErrorType metrics) (errorCounts m)\<rparr>
         else m\<lparr>failedRequests := failedRequests m + 1\<rparr>)"

text \<open>The IP and the per-hour and per-day histograms.\<close>

definition recordIPAndTime ::
  "(time \<Rightarrow> int) \<Rightarrow> (time \<Rightarrow> string) \<Rightarrow> MetricsTracker \<Rightarrow> RequestMetrics
     \<Rightarrow> MetricsTracker" where
  "recordIPAndTime hourOf dateOf m metrics =
     m\<lparr>uniqueIPs := AList.update (IP metrics) True (uniqueIPs m),
       requestsPerHour := increment (hourOf (Timestamp metrics)) (requestsPerHour m),
       requestsPerDay := increment (dateOf (Timestamp metrics)) (requestsPerDay m)\<rparr>"

text \<open>The response-time series: append, maximum, average, trim.\<close>

definition recordResponseTime :: "MetricsTracker \<Rightarrow> RequestMetrics \<Rightarrow> MetricsTracker" where
  "recordResponseTime m metrics =
     (let times = responseTimes m @ [ResponseTime metrics];
          maxTime = (if ResponseTime metrics > maxResponseTime m then ResponseTime metrics
                     else maxResponseTime m);
          avgTime = (if length times > 0 then go_quot (sum_list times) (int (length times))
                     else avgResponseTime m);
          kept = (if length times > 10000 then drop (length times - 1000) times else times)
      in m\<lparr>responseTimes := kept, maxResponseTime := maxTime, avgResponseTime := avgTime\<rparr>)"

definition RecordRequest ::
  "(time \<Rightarrow> int) \<Rightarrow> (time \<Rightarrow> string) \<Rightarrow> MetricsTracker \<Rightarrow> RequestMetrics
     \<Rightarrow> MetricsTracker" where
  "RecordRequest hourOf dateOf m metrics =
     recordResponseTime
       (recordIPAndTime hourOf dateOf (recordOutcome m metrics) metrics) metrics"

definition RecordBlocked :: "MetricsTracker \<Rightarrow> string \<Rightarrow> MetricsTracker" where
  "RecordBlocked m ip =
     m\<lparr>blockedRequests := blockedRequests m + 1,
       uniqueIPs := AList.update ip True (uniqueIPs m)\<rparr>"

definition copyMap :: "('k, 'v) gomap \<Rightarrow> ('k, 'v) gomap" where
  "copyMap m = fold (\<lambda>(k, v) counts. AList.update k v counts) m []"

definition GetSummary :: "MetricsTracker \<Rightarrow> Summary" where
  "GetSummary m =
     \<lparr>TotalRequests = totalRequests m,
      SuccessfulRequests = successfulRequests m,
      FailedRequests = failedRequests m,
      BlockedRequests = blockedRequests m,
      TotalTokensDistributed = totalTokensDistributed m,
      UniqueAddresses = int (length (uniqueAddresses m)),
      UniqueIPs = int (length (uniqueIPs m)),
      AvgResponseTime = avgResponseTime m,
      MaxResponseTime = maxResponseTime m,
      ErrorBreakdown = copyMap (errorCounts m),
      HourlyDistribution = copyMap (requestsPerHour m)\<rparr>"

text \<open>Example data, used to evaluate the CAPTCHA definitions on a concrete input.\<close>

definition example_service :: CaptchaService where
  "example_service =
     NewCaptchaService \<lparr>Length = 4, Width = 0, Height = 0, TTL = 60 * Second,
                          opt_Difficulty = []\<rparr>"

definition example_captcha :: CaptchaData where
  "example_captcha =
     \<lparr>cap_ID = ''abcdefghijklmnop'', cap_Solution = ''ACEG'', ImageData = [137, 80],
      cap_CreatedAt = 100, cap_ExpiresAt = 60000000100\<rparr>"

definition example_issued :: CaptchaService where
  "example_issued = example_service\<lparr>store := store_Set (store example_service) example_captcha\<rparr>"

text \<open>Example requests, used to evaluate the metrics definitions on a concrete input.\<close>

definition example_success :: RequestMetrics where
  "example_success =
     \<lparr>IP = ''192.0.2.10'', Address = ''aura1first'', Amount = 1000000, Success = True,
      ErrorType = [], ResponseTime = 20000000, Timestamp = 0,
      CaptchaSolved = True, POWCompleted = True\<rparr>"

definition example_failure :: RequestMetrics where
  "example_failure =
     \<lparr>IP = ''192.0.2.11'', Address = ''aura1second'', Amount = 500000, Success = False,
      ErrorType = ''captcha_failed'', ResponseTime = 40000000, Timestamp = 3600000000000,
      CaptchaSolved = False, POWCompleted = False\<rparr>"

definition example_hourOf :: "time \<Rightarrow> int" where
  "example_hourOf t = (t div Hour) mod 24"

definition example_dateOf :: "time \<Rightarrow> string" where
  "example_dateOf t = (if t div (24 * Hour) = 0 then ''1970-01-01'' else ''1970-01-02'')"

section \<open>Abuse detector (backend/pkg/abuse/detector.go)\<close>

text \<open>
  The functions of Go's package net that the detector calls are parameters: \<open>ParseIP\<close>
  (\<open>None\<close> for \<open>nil\<close>), \<open>To4\<close> (true when \<open>ip.To4()\<close> is not \<open>nil\<close>),
  \<open>ParseCIDR\<close> (the network it returns, \<open>None\<close> when it returns an error) and the
  method \<open>Contains\<close> of a network.
\<close>

record ('ip, 'net) netlib =
  ParseIP :: "string \<Rightarrow> 'ip option"
  To4 :: "'ip \<Rightarrow> bool"
  ParseCIDR :: "string \<Rightarrow> 'net option"
  Contains :: "'net \<Rightarrow> 'ip \<Rightarrow> bool"

record DetectorConfig =
  MaxAttemptsPerHour :: int
  MaxAttemptsPerDay :: int
  BlockDuration :: duration
  SubnetCheckEnabled :: bool
  VPNDetectionEnabled :: bool
  SuspiciousThreshold :: int

record AttemptTracker =
  Count :: int
  FirstAttempt :: time
  LastAttempt :: time
  SuccessfulCount :: int
  FailedCount :: int
  Addresses :: "(string, int) gomap"

record DetectionResult =
  Allowed :: bool
  Reason :: string
  RiskScore :: int
  BlockedUntil :: "time option"
  RecommendedDelay :: duration

record AbuseDetector =
  ipAttempts :: "(string, AttemptTracker) gomap"
  addressAttempts :: "(string, AttemptTracker) gomap"
  blockedIPs :: "string \<rightharpoonup> time"
  blockedAddrs :: "string \<rightharpoonup> time"
  config :: DetectorConfig

text \<open>
  The zero value of \<open>time.Time\<close> (1 January of year 1, UTC), with times counted from
  the Unix epoch.
\<close>

definition zeroTime :: time where
  "zeroTime = - 62135596800 * Second"

definition NewAbuseDetector :: "DetectorConfig \<Rightarrow> AbuseDetector" where
  "NewAbuseDetector cfg =
     (let cfg = (if MaxAttemptsPerHour cfg = 0 then cfg\<lparr>MaxAttemptsPerHour := 10\<rparr> else cfg);
          cfg = (if MaxAttemptsPerDay cfg = 0 then cfg\<lparr>MaxAttemptsPerDay := 50\<rparr> else cfg);
          cfg = (if BlockDuration cfg = 0 then cfg\<lparr>BlockDuration := 24 * Hour\<rparr> else cfg);
          cfg = (if SuspiciousThreshold cfg = 0 then cfg\<lparr>SuspiciousThreshold := 5\<rparr> else cfg)
      in \<lparr>ipAttempts = [], addressAttempts = [], blockedIPs = Map.empty,
          blockedAddrs = Map.empty, config = cfg\<rparr>)"

text \<open>
  \<open>getOrCreateTracker\<close> returns the tracker and the map of trackers afterwards; the
  last argument is the clock reading taken when a tracker is created.
\<close>

definition getOrCreateTracker ::
  "(string, AttemptTracker) gomap \<Rightarrow> string \<Rightarrow> time
     \<Rightarrow> AttemptTracker \<times> (string, AttemptTracker) gomap" where
  "getOrCreateTracker trackers key now =
     (case map_of trackers key of
        Some tracker \<Rightarrow> (tracker, trackers)
      | None \<Rightarrow>
          (let tracker = \<lparr>Count = 0, FirstAttempt = now, LastAttempt = zeroTime,
                            SuccessfulCount = 0, FailedCount = 0, Addresses = []\<rparr>
           in (tracker, AList.update key tracker trackers)))"

definition blockIP :: "AbuseDetector \<Rightarrow> string \<Rightarrow> time \<Rightarrow> AbuseDetector" where
  "blockIP ad ip now =
     ad\<lparr>blockedIPs := (blockedIPs ad)(ip \<mapsto> time_Add now (BlockDuration (config ad)))\<rparr>"

definition calculateRiskScore ::
  "DetectorConfig \<Rightarrow> AttemptTracker \<Rightarrow> string \<Rightarrow> string \<Rightarrow> time \<Rightarrow> int" where
  "calculateRiskScore cfg tracker ip address now =
     (let score = 0;
          score = (if Count tracker > SuspiciousThreshold cfg then score + 20 else score);
          score = (if FailedCount tracker > SuccessfulCount tracker * 2 then score + 15
                   else score);
          score = (if int (length (Addresses tracker)) > 3
                   then score + 10 * (int (length (Addresses tracker)) - 3) else score);
          score = (if time_Sub now (LastAttempt tracker) < 1 * Minute \<and> Count tracker > 3
                   then score + 25 else score)
      in score)"

text \<open>The counting loop of \<open>checkSubnetAbuse\<close> over the tracked IPs.\<close>

fun countInSubnet :: "('ip, 'net) netlib \<Rightarrow> 'net \<Rightarrow> string list \<Rightarrow> int" where
  "countInSubnet lib subnet [] = 0"
| "countInSubnet lib subnet (trackedIP # rest) =
     (case ParseIP lib trackedIP of
        None \<Rightarrow> countInSubnet lib subnet rest
      | Some parsedTrackedIP \<Rightarrow>
          if Contains lib subnet parsedTrackedIP then countInSubnet lib subnet rest + 1
          else countInSubnet lib subnet rest)"

definition requesterSubnet :: "('ip, 'net) netlib \<Rightarrow> string \<Rightarrow> 'ip \<Rightarrow> 'net option" where
  "requesterSubnet lib ip parsedIP =
     (if To4 lib parsedIP then ParseCIDR lib (ip @ ''/24'') else ParseCIDR lib (ip @ ''/64''))"

definition checkSubnetAbuse :: "('ip, 'net) netlib \<Rightarrow> AbuseDetector \<Rightarrow> string \<Rightarrow> bool" where
  "checkSubnetAbuse lib ad ip =
     (case ParseIP lib ip of
        None \<Rightarrow> False
      | Some parsedIP \<Rightarrow>
          (case requesterSubnet lib ip parsedIP of
             None \<Rightarrow> False
           | Some subnet \<Rightarrow> countInSubnet lib subnet (map fst (ipAttempts ad)) > 5))"

definition commonVPNRanges :: "string list" where
  "commonVPNRanges = [''10.0.0.0/8'', ''172.16.0.0/12'', ''192.168.0.0/16'']"

definition isLikelyVPN :: "('ip, 'net) netlib \<Rightarrow> string \<Rightarrow> bool" where
  "isLikelyVPN lib ip =
     (case ParseIP lib ip of
        None \<Rightarrow> False
      | Some parsedIP \<Rightarrow>
          list_ex (\<lambda>cidr. case ParseCIDR lib cidr of
                             None \<Rightarrow> False
                           | Some subnet \<Rightarrow> Contains lib subnet parsedIP)
                  commonVPNRanges)"

text \<open>
  The clock readings of one call of \<open>CheckRequest\<close>, in source order: the two block
  checks, the creation of the tracker, \<open>time.Since\<close> in \<open>calculateRiskScore\<close>,
  \<open>now\<close> of the hourly check, and \<open>blockIP\<close>.
\<close>

record CheckClock =
  t_ipBlock :: time
  t_addrBlock :: time
  t_create :: time
  t_since :: time
  t_now :: time
  t_block :: time

definition denied :: "string \<Rightarrow> time option \<Rightarrow> DetectionResult" where
  "denied reason until =
     \<lparr>Allowed = False, Reason = reason, RiskScore = 0, BlockedUntil = until,
      RecommendedDelay = 0\<rparr>"

text \<open>
  The two block checks at the head of \<open>CheckRequest\<close>: \<open>Some\<close> result when the
  function returns there, and the detector afterwards (a stale entry is deleted).
\<close>

definition checkBlockedIP ::
  "AbuseDetector \<Rightarrow> string \<Rightarrow> time \<Rightarrow> DetectionResult option \<times> AbuseDetector" where
  "checkBlockedIP ad ip now =
     (case blockedIPs ad ip of
        None \<Rightarrow> (None, ad)
      | Some blockedUntil \<Rightarrow>
          if time_Before now blockedUntil
          then (Some (denied ''IP address is temporarily blocked'' (Some blockedUntil)), ad)
          else (None, ad\<lparr>blockedIPs := (blockedIPs ad)(ip := None)\<rparr>))"

definition checkBlockedAddr ::
  "AbuseDetector \<Rightarrow> string \<Rightarrow> time \<Rightarrow> DetectionResult option \<times> AbuseDetector" where
  "checkBlockedAddr ad address now =
     (case blockedAddrs ad address of
        None \<Rightarrow> (None, ad)
      | Some blockedUntil \<Rightarrow>
          if time_Before now blockedUntil
          then (Some (denied ''Address is temporarily blocked'' (Some blockedUntil)), ad)
          else (None, ad\<lparr>blockedAddrs := (blockedAddrs ad)(address := None)\<rparr>))"

text \<open>The tail of \<open>CheckRequest\<close> from the subnet check on.\<close>

definition checkHeuristics ::
  "('ip, 'net) netlib \<Rightarrow> AbuseDetector \<Rightarrow> string \<Rightarrow> AttemptTracker \<Rightarrow> DetectionResult
     \<Rightarrow> DetectionResult \<times> AbuseDetector" where
  "checkHeuristics lib ad ip ipTracker result =
     (if SubnetCheckEnabled (config ad) \<and> checkSubnetAbuse lib ad ip
      then (result\<lparr>Allowed := False,
                    Reason := ''Multiple requests detected from your subnet'',
                    RiskScore := RiskScore result + 30\<rparr>, ad)
      else (let result = (if VPNDetectionEnabled (config ad) \<and> isLikelyVPN lib ip
                          then result\<lparr>RiskScore := RiskScore result + 20,
                                        RecommendedDelay := 30 * Second\<rparr>
                          else result);
                result = (if int (length (Addresses ipTracker)) > SuspiciousThreshold (config ad)
                          then result\<lparr>RiskScore := RiskScore result + 25,
                                 Reason := ''Suspicious: Multiple addresses requested from same IP''\<rparr>
                          else result);
                result = (if RiskScore result > 50
                          then result\<lparr>RecommendedDelay := RiskScore result * Second\<rparr>
                          else result)
            in (result, ad)))"

text \<open>The daily limit, then the tail.\<close>

definition checkDaily ::
  "('ip, 'net) netlib \<Rightarrow> AbuseDetector \<Rightarrow> string \<Rightarrow> AttemptTracker \<Rightarrow> DetectionResult
     \<Rightarrow> time \<Rightarrow> DetectionResult \<times> AbuseDetector" where
  "checkDaily lib ad ip ipTracker result tb =
     (if SuccessfulCount ipTracker + FailedCount ipTracker \<ge> MaxAttemptsPerDay (config ad)
      then (result\<lparr>Allowed := False, Reason := ''Daily request limit exceeded''\<rparr>,
            blockIP ad ip tb)
      else checkHeuristics lib ad ip ipTracker result)"

text \<open>
  \<open>CheckRequest\<close> from the lookup of the IP's tracker on: the risk score, the hourly
  limit (or the reset of the window, written back to the tracker in the map), then the
  daily limit.
\<close>

definition checkTracker ::
  "('ip, 'net) netlib \<Rightarrow> AbuseDetector \<Rightarrow> string \<Rightarrow> string \<Rightarrow> CheckClock
     \<Rightarrow> DetectionResult \<times> AbuseDetector" where
  "checkTracker lib ad0 ip address clk =
     (let (ipTracker, trackers) = getOrCreateTracker (ipAttempts ad0) ip (t_create clk);
          ad = ad0\<lparr>ipAttempts := trackers\<rparr>;
          result = \<lparr>Allowed = True, Reason = [],
                    RiskScore = calculateRiskScore (config ad) ipTracker ip address (t_since clk),
                    BlockedUntil = None, RecommendedDelay = 0\<rparr>;
          now = t_now clk
      in if time_Sub now (FirstAttempt ipTracker) < Hour
         then (if Count ipTracker \<ge> MaxAttemptsPerHour (config ad)
               then (result\<lparr>Allowed := False,
                      Reason := ''Too many requests from this IP (hourly limit exceeded)''\<rparr>,
                     blockIP ad ip (t_block clk))
               else checkDaily lib ad ip ipTracker result (t_block clk))
         else (let ipTracker = ipTracker\<lparr>Count := 0, FirstAttempt := now\<rparr>
               in checkDaily lib (ad\<lparr>ipAttempts := AList.update ip ipTracker (ipAttempts ad)\<rparr>)
                    ip ipTracker result (t_block clk)))"

definition CheckRequest ::
  "('ip, 'net) netlib \<Rightarrow> AbuseDetector \<Rightarrow> string \<Rightarrow> string \<Rightarrow> CheckClock
     \<Rightarrow> DetectionResult \<times> AbuseDetector" where
  "CheckRequest lib ad ip address clk =
     (case checkBlockedIP ad ip (t_ipBlock clk) of
        (Some result, ad1) \<Rightarrow> (result, ad1)
      | (None, ad1) \<Rightarrow>
          (case checkBlockedAddr ad1 address (t_addrBlock clk) of
             (Some result, ad2) \<Rightarrow> (result, ad2)
           | (None, ad2) \<Rightarrow> checkTracker lib ad2 ip address clk))"

text \<open>
  The clock readings of one call of \<open>RecordAttempt\<close>: creation of the IP's tracker,
  its \<open>LastAttempt\<close>, creation of the address's tracker, its \<open>LastAttempt\<close>.
\<close>

record RecordClock =
  r_createIP :: time
  r_lastIP :: time
  r_createAddr :: time
  r_lastAddr :: time

definition RecordAttempt ::
  "AbuseDetector \<Rightarrow> string \<Rightarrow> string \<Rightarrow> bool \<Rightarrow> RecordClock \<Rightarrow> AbuseDetector" where
  "RecordAttempt ad ip address success clk =
     (let (ipTracker, ipTrackers) = getOrCreateTracker (ipAttempts ad) ip (r_createIP clk);
          ipTracker = ipTracker\<lparr>Count := Count ipTracker + 1, LastAttempt := r_lastIP clk,
                        Addresses := increment address (Addresses ipTracker)\<rparr>;
          ipTracker = (if success
                       then ipTracker\<lparr>SuccessfulCount := SuccessfulCount ipTracker + 1\<rparr>
                       else ipTracker\<lparr>FailedCount := FailedCount ipTracker + 1\<rparr>);
          (addrTracker, addrTrackers) =
             getOrCreateTracker (addressAttempts ad) address (r_createAddr clk);
          addrTracker = addrTracker\<lparr>Count := Count addrTracker + 1,
                          LastAttempt := r_lastAddr clk\<rparr>;
          addrTracker = (if success
                         then addrTracker\<lparr>SuccessfulCount := SuccessfulCount addrTracker + 1\<rparr>
                         else addrTracker\<lparr>FailedCount := FailedCount addrTracker + 1\<rparr>)
      in ad\<lparr>ipAttempts := AList.update ip ipTracker ipTrackers,
            addressAttempts := AList.update address addrTracker addrTrackers\<rparr>)"

definition BlockIP :: "AbuseDetector \<Rightarrow> string \<Rightarrow> duration \<Rightarrow> time \<Rightarrow> AbuseDetector" where
  "BlockIP ad ip d now =
     (let d = (if d = 0 then BlockDuration (config ad) else d)
      in ad\<lparr>blockedIPs := (blockedIPs ad)(ip \<mapsto> time_Add now d)\<rparr>)"

definition BlockAddress :: "AbuseDetector \<Rightarrow> string \<Rightarrow> duration \<Rightarrow> time \<Rightarrow> AbuseDetector" where
  "BlockAddress ad address d now =
     (let d = (if d = 0 then BlockDuration (config ad) else d)
      in ad\<lparr>blockedAddrs := (blockedAddrs ad)(address \<mapsto> time_Add now d)\<rparr>)"

definition UnblockIP :: "AbuseDetector \<Rightarrow> string \<Rightarrow> AbuseDetector" where
  "UnblockIP ad ip = ad\<lparr>blockedIPs := (blockedIPs ad)(ip := None)\<rparr>"

definition UnblockAddress :: "AbuseDetector \<Rightarrow> string \<Rightarrow> AbuseDetector" where
  "UnblockAddress ad address = ad\<lparr>blockedAddrs := (blockedAddrs ad)(address := None)\<rparr>"

text \<open>The condition under which a block check of \<open>CheckRequest\<close> denies.\<close>

definition activeBlock :: "(string \<rightharpoonup> time) \<Rightarrow> string \<Rightarrow> time \<Rightarrow> bool" where
  "activeBlock blocked key now =
     (case blocked key of None \<Rightarrow> False | Some blockedUntil \<Rightarrow> time_Before now blockedUntil)"

text \<open>
  A tracked key counts for a subnet when it parses and the subnet contains the parsed
  address: the test in the loop of \<open>checkSubnetAbuse\<close>.
\<close>

definition inSubnet :: "('ip, 'net) netlib \<Rightarrow> 'net \<Rightarrow> string \<Rightarrow> bool" where
  "inSubnet lib subnet key =
     (case ParseIP lib key of None \<Rightarrow> False | Some parsed \<Rightarrow> Contains lib subnet parsed)"

text \<open>
  A stand-in for package net restricted to dotted-decimal IPv4 text, used only to evaluate
  the detector on concrete inputs. An address is its 32-bit number; a network is its
  number shifted right by the host bits, with the prefix length.
\<close>

definition digitValue :: "char \<Rightarrow> int option" where
  "digitValue c =
     (let n = (of_char c :: int) in if 48 \<le> n \<and> n \<le> 57 then Some (n - 48) else None)"

fun parseDecimal_from :: "int \<Rightarrow> string \<Rightarrow> int option" where
  "parseDecimal_from acc [] = Some acc"
| "parseDecimal_from acc (c # cs) =
     (case digitValue c of
        None \<Rightarrow> None
      | Some d \<Rightarrow> parseDecimal_from (10 * acc + d) cs)"

definition parseDecimal :: "string \<Rightarrow> int option" where
  "parseDecimal s = (if s = [] then None else parseDecimal_from 0 s)"

fun splitOn :: "char \<Rightarrow> string \<Rightarrow> string list" where
  "splitOn sep [] = [[]]"
| "splitOn sep (c # cs) =
     (if c = sep then [] # splitOn sep cs
      else (case splitOn sep cs of
              [] \<Rightarrow> [[c]]
            | w # ws \<Rightarrow> (c # w) # ws))"

fun combineOctets :: "int \<Rightarrow> int option list \<Rightarrow> int option" where
  "combineOctets acc [] = Some acc"
| "combineOctets acc (None # rest) = None"
| "combineOctets acc (Some v # rest) =
     (if v < 256 then combineOctets (acc * 256 + v) rest else None)"

definition ipv4_ParseIP :: "string \<Rightarrow> int option" where
  "ipv4_ParseIP s =
     (let parts = splitOn CHR ''.'' s
      in if length parts = 4 then combineOctets 0 (map parseDecimal parts) else None)"

definition ipv4_ParseCIDR :: "string \<Rightarrow> (int \<times> int) option" where
  "ipv4_ParseCIDR s =
     (case splitOn CHR ''/'' s of
        [a, m] \<Rightarrow>
          (case (ipv4_ParseIP a, parseDecimal m) of
             (Some ip, Some n) \<Rightarrow>
               if n \<le> 32 then Some (ip div 2 ^ nat (32 - n), n) else None
           | _ \<Rightarrow> None)
      | _ \<Rightarrow> None)"

definition ipv4_Contains :: "int \<times> int \<Rightarrow> int \<Rightarrow> bool" where
  "ipv4_Contains net ip = (case net of (base, n) \<Rightarrow> ip div 2 ^ nat (32 - n) = base)"

definition ipv4_lib :: "(int, int \<times> int) netlib" where
  "ipv4_lib = \<lparr>ParseIP = ipv4_ParseIP, To4 = (\<lambda>ip. True), ParseCIDR = ipv4_ParseCIDR,
               Contains = ipv4_Contains\<rparr>"

text \<open>Example detector states, used to evaluate the detector on concrete inputs.\<close>

definition example_config :: DetectorConfig where
  "example_config =
     \<lparr>MaxAttemptsPerHour = 3, MaxAttemptsPerDay = 50, BlockDuration = Minute,
      SubnetCheckEnabled = True, VPNDetectionEnabled = True, SuspiciousThreshold = 5\<rparr>"

definition example_clock :: CheckClock where
  "example_clock =
     \<lparr>t_ipBlock = 100 * Second, t_addrBlock = 100 * Second + 1, t_create = 100 * Second + 2,
      t_since = 100 * Second + 3, t_now = 100 * Second + 4, t_block = 100 * Second + 5\<rparr>"

definition idle_tracker :: AttemptTracker where
  "idle_tracker =
     \<lparr>Count = 0, FirstAttempt = 90 * Second, LastAttempt = zeroTime, SuccessfulCount = 0,
      FailedCount = 0, Addresses = []\<rparr>"



definition crowded_detector :: AbuseDetector where
  "crowded_detector =
     \<lparr>ipAttempts = [(''10.0.0.2'', idle_tracker), (''10.0.0.3'', idle_tracker),
                     (''10.0.0.4'', idle_tracker), (''10.0.0.5'', idle_tracker),
                     (''10.0.0.6'', idle_tracker), (''10.0.9.9'', idle_tracker)],
      addressAttempts = [], blockedIPs = Map.empty, blockedAddrs = Map.empty,
      config = example_config\<rparr>"


text \<open>
  The scenario of the detector's hourly-limit test: a new detector with an hourly maximum
  of 3 and a block duration of one minute, and cycles of \<open>CheckRequest\<close> followed by
  \<open>RecordAttempt\<close> for one IP and one address, with clock readings one nanosecond apart
  from a given start.
\<close>

definition clock_at :: "time \<Rightarrow> CheckClock" where
  "clock_at t =
     \<lparr>t_ipBlock = t, t_addrBlock = t + 1, t_create = t + 2, t_since = t + 3, t_now = t + 4,
      t_block = t + 5\<rparr>"

definition record_clock_at :: "time \<Rightarrow> RecordClock" where
  "record_clock_at t =
     \<lparr>r_createIP = t, r_lastIP = t + 1, r_createAddr = t + 2, r_lastAddr = t + 3\<rparr>"

definition test_detector :: AbuseDetector where
  "test_detector =
     NewAbuseDetector
       \<lparr>MaxAttemptsPerHour = 3, MaxAttemptsPerDay = 0, BlockDuration = Minute,
        SubnetCheckEnabled = False, VPNDetectionEnabled = False, SuspiciousThreshold = 0\<rparr>"

definition test_cycle :: "AbuseDetector \<Rightarrow> time \<Rightarrow> AbuseDetector" where
  "test_cycle ad t =
     RecordAttempt (snd (CheckRequest ipv4_lib ad ''192.0.2.1'' ''aura1test'' (clock_at t)))
       ''192.0.2.1'' ''aura1test'' False (record_clock_at (t + 10))"

section \<open>Helper lemmas for the proof-of-work engine\<close>

lemma SolveChallenge_loop_sound:
  "SolveChallenge_loop H nonce pfx a = Inr sol \<Longrightarrow>
     strings_HasPrefix (computeHash H nonce sol) pfx"
proof (induction H nonce pfx a rule: SolveChallenge_loop.induct)
  case (1 H nonce pfx attempts)
  show ?case
  proof (cases "attempts < maxAttempts")
    case False
    with "1.prems" show ?thesis
      by (simp add: SolveChallenge_loop.simps [of H nonce pfx attempts])
  next
    case True
    show ?thesis
    proof (cases "strings_HasPrefix (computeHash H nonce (Sprintf_d attempts)) pfx")
      case hit: True
      with True "1.prems" show ?thesis
        by (simp add: SolveChallenge_loop.simps [of H nonce pfx attempts])
    next
      case miss: False
      with True "1.prems"
      have "SolveChallenge_loop H nonce pfx (attempts + 1) = Inr sol"
        by (simp add: SolveChallenge_loop.simps [of H nonce pfx attempts])
      with "1.IH" [OF True refl refl miss] show ?thesis .
    qed
  qed
qed

lemma SolveChallenge_sound:
  assumes "SolveChallenge H nonce d = Inr sol"
  shows "verifyHash (computeHash H nonce sol) d = Inr True"
proof (cases "d < 0")
  case True
  with assms show ?thesis
    by (simp add: SolveChallenge_def strings_Repeat_def)
next
  case False
  with assms have "SolveChallenge_loop H nonce (concat (replicate (nat d) ''0'')) 0 = Inr sol"
    by (simp add: SolveChallenge_def strings_Repeat_def)
  from SolveChallenge_loop_sound [OF this] False show ?thesis
    by (simp add: verifyHash_def strings_Repeat_def)
qed

lemma prefix_replicate_takeWhile:
  "prefix (replicate n x) h \<longleftrightarrow> n \<le> length (takeWhile (\<lambda>c. c = x) h)"
proof (induction h arbitrary: n)
  case Nil
  then show ?case by simp
next
  case (Cons a h)
  then show ?case by (cases n) auto
qed

lemma concat_replicate_single: "concat (replicate n [x]) = replicate n x"
  by (induction n) simp_all

lemma verifyHash_leadingZeros:
  "verifyHash h d =
     (if d < 0 then Inl PanicNegativeRepeat else Inr (d \<le> int (leadingZeros h)))"
  by (auto simp add: verifyHash_def strings_Repeat_def strings_HasPrefix_def
      concat_replicate_single prefix_replicate_takeWhile leadingZeros_def)

lemma Verify_absent:
  "challenges p cid = None \<Longrightarrow> Verify H p cid sol now = (Inl ChallengeNotFound, p)"
  by (simp add: Verify_def)

lemma Verify_expired:
  "challenges p cid = Some c \<Longrightarrow> time_After now (ExpiresAt c) \<Longrightarrow>
     Verify H p cid sol now
       = (Inl ChallengeExpired, p\<lparr>challenges := (challenges p)(cid := None)\<rparr>)"
  by (simp add: Verify_def)

lemma Verify_live:
  "challenges p cid = Some c \<Longrightarrow> \<not> time_After now (ExpiresAt c) \<Longrightarrow>
     Verify H p cid sol now
       = (case verifyHash (computeHash H (Nonce c) sol) (Difficulty c) of
            Inl e \<Rightarrow> (Inl e, p)
          | Inr valid \<Rightarrow>
              if valid then (Inr True, p\<lparr>challenges := (challenges p)(cid := None)\<rparr>)
              else (Inr False, p))"
  by (simp add: Verify_def)

lemma toy_solution: "SolveChallenge toyH ''abc'' 2 = Inr ''100''"
  by code_simp

section \<open>Claims about the proof-of-work engine\<close>

text \<open>
  Claim C1. For a challenge held by the engine, a solution returned by the reference
  solver for the challenge's nonce and difficulty makes \<open>Verify\<close> return true before
  expiry and evicts the challenge (only that entry of the store changes); any second
  \<open>Verify\<close> with the same id, whatever the solution and the time, fails with the
  not-found error and leaves the engine as it is.
\<close>

theorem C1_solver_solution_verifies_exactly_once:
  assumes "challenges p cid = Some c"
    and "SolveChallenge H (Nonce c) (Difficulty c) = Inr sol"
    and "\<not> time_After now (ExpiresAt c)"
  shows "Verify H p cid sol now = (Inr True, p\<lparr>challenges := (challenges p)(cid := None)\<rparr>)
       \<and> Verify H (snd (Verify H p cid sol now)) cid sol' now'
           = (Inl ChallengeNotFound, snd (Verify H p cid sol now))"
proof -
  from SolveChallenge_sound [OF assms(2)]
  have "verifyHash (computeHash H (Nonce c) sol) (Difficulty c) = Inr True" .
  with assms(1,3)
  have first: "Verify H p cid sol now
                 = (Inr True, p\<lparr>challenges := (challenges p)(cid := None)\<rparr>)"
    by (simp add: Verify_live)
  have "challenges (snd (Verify H p cid sol now)) cid = None"
    by (simp add: first)
  from Verify_absent [OF this] first show ?thesis
    by simp
qed

theorem C1_solver_solution_verifies_exactly_once_witness:
  "challenges (snd (GenerateChallenge (NewProofOfWork 2) ''pow_1'' ''abc'' 5 5)) ''pow_1''
     = Some (fst (GenerateChallenge (NewProofOfWork 2) ''pow_1'' ''abc'' 5 5))
   \<and> SolveChallenge toyH ''abc'' 2 = Inr ''100''
   \<and> Verify toyH (snd (GenerateChallenge (NewProofOfWork 2) ''pow_1'' ''abc'' 5 5))
        ''pow_1'' ''100'' 7 = (Inr True, NewProofOfWork 2)
   \<and> Verify toyH (NewProofOfWork 2) ''pow_1'' ''7'' 8
       = (Inl ChallengeNotFound, NewProofOfWork 2)"
proof -
  let ?p = "snd (GenerateChallenge (NewProofOfWork 2) ''pow_1'' ''abc'' 5 5)"
  let ?c = "fst (GenerateChallenge (NewProofOfWork 2) ''pow_1'' ''abc'' 5 5)"
  have a: "challenges ?p ''pow_1'' = Some ?c"
    by (simp add: GenerateChallenge_def Let_def)
  have b: "SolveChallenge toyH (Nonce ?c) (Difficulty ?c) = Inr ''100''"
    by (simp add: GenerateChallenge_def Let_def NewProofOfWork_def toy_solution)
  have c: "\<not> time_After 7 (ExpiresAt ?c)"
    by (simp add: GenerateChallenge_def Let_def time_After_def time_Add_def
        Minute_def Second_def)
  have d: "?p\<lparr>challenges := (challenges ?p)(''pow_1'' := None)\<rparr> = NewProofOfWork 2"
    by (simp add: GenerateChallenge_def Let_def NewProofOfWork_def)
  note inst = C1_solver_solution_verifies_exactly_once [OF a b c, of "''7''" 8]
  have e: "Verify toyH ?p ''pow_1'' ''100'' 7 = (Inr True, NewProofOfWork 2)"
    using inst unfolding d by (rule conjunct1)
  have "Verify toyH (snd (Verify toyH ?p ''pow_1'' ''100'' 7)) ''pow_1'' ''7'' 8
          = (Inl ChallengeNotFound, snd (Verify toyH ?p ''pow_1'' ''100'' 7))"
    using inst by (rule conjunct2)
  then have f: "Verify toyH (NewProofOfWork 2) ''pow_1'' ''7'' 8
                  = (Inl ChallengeNotFound, NewProofOfWork 2)"
    unfolding e by simp
  from a toy_solution e f show ?thesis by blast
qed

text \<open>
  Claim C7. \<open>Verify\<close> on a challenge whose expiry time lies in the past returns the
  expired error and removes the entry from the store, whatever the solution (also one the
  reference solver produced); a later \<open>Verify\<close> on the same id fails with the
  not-found error.
\<close>

theorem C7_expired_challenge_fails_and_is_evicted:
  assumes "challenges p cid = Some c"
    and "time_After now (ExpiresAt c)"
  shows "Verify H p cid sol now
           = (Inl ChallengeExpired, p\<lparr>challenges := (challenges p)(cid := None)\<rparr>)
       \<and> challenges (snd (Verify H p cid sol now)) cid = None
       \<and> Verify H (snd (Verify H p cid sol now)) cid sol' now'
           = (Inl ChallengeNotFound, snd (Verify H p cid sol now))"
proof -
  have first: "Verify H p cid sol now
                 = (Inl ChallengeExpired, p\<lparr>challenges := (challenges p)(cid := None)\<rparr>)"
    using assms by (rule Verify_expired)
  have gone: "challenges (snd (Verify H p cid sol now)) cid = None"
    by (simp add: first)
  from first gone Verify_absent [OF gone] show ?thesis
    by simp
qed

theorem C7_expired_challenge_fails_and_is_evicted_witness:
  "SolveChallenge toyH ''abc'' 2 = Inr ''100''
   \<and> Verify toyH (snd (GenerateChallenge (NewProofOfWork 2) ''pow_1'' ''abc'' 5 5))
        ''pow_1'' ''100'' 600000000006 = (Inl ChallengeExpired, NewProofOfWork 2)
   \<and> Verify toyH (NewProofOfWork 2) ''pow_1'' ''100'' 600000000007
       = (Inl ChallengeNotFound, NewProofOfWork 2)"
proof -
  let ?p = "snd (GenerateChallenge (NewProofOfWork 2) ''pow_1'' ''abc'' 5 5)"
  let ?c = "fst (GenerateChallenge (NewProofOfWork 2) ''pow_1'' ''abc'' 5 5)"
  have a: "challenges ?p ''pow_1'' = Some ?c"
    by (simp add: GenerateChallenge_def Let_def)
  have b: "time_After 600000000006 (ExpiresAt ?c)"
    by (simp add: GenerateChallenge_def Let_def time_After_def time_Add_def
        Minute_def Second_def)
  have d: "?p\<lparr>challenges := (challenges ?p)(''pow_1'' := None)\<rparr> = NewProofOfWork 2"
    by (simp add: GenerateChallenge_def Let_def NewProofOfWork_def)
  note inst = C7_expired_challenge_fails_and_is_evicted
               [OF a b, of toyH "''100''" "''100''" 600000000007]
  have e: "Verify toyH ?p ''pow_1'' ''100'' 600000000006
             = (Inl ChallengeExpired, NewProofOfWork 2)"
    using inst unfolding d by (rule conjunct1)
  have "Verify toyH (snd (Verify toyH ?p ''pow_1'' ''100'' 600000000006)) ''pow_1'' ''100''
          600000000007
          = (Inl ChallengeNotFound, snd (Verify toyH ?p ''pow_1'' ''100'' 600000000006))"
    using inst by blast
  then have f: "Verify toyH (NewProofOfWork 2) ''pow_1'' ''100'' 600000000007
                  = (Inl ChallengeNotFound, NewProofOfWork 2)"
    unfolding e by simp
  from toy_solution e f show ?thesis by blast
qed

text \<open>
  Claim C8. When the digest of nonce and candidate has fewer leading zero digits than the
  challenge's difficulty, \<open>Verify\<close> on a stored, unexpired challenge returns false
  without error and leaves the engine unchanged, so that a retry sees the same challenge:
  every later call behaves as it would have on the original engine, and a later candidate
  with enough leading zeros, before expiry, is accepted.
\<close>

theorem C8_hash_mismatch_keeps_challenge:
  assumes "challenges p cid = Some c"
    and "\<not> time_After now (ExpiresAt c)"
    and "int (leadingZeros (computeHash H (Nonce c) sol)) < Difficulty c"
  shows "Verify H p cid sol now = (Inr False, p)
       \<and> Verify H (snd (Verify H p cid sol now)) cid sol2 now2 = Verify H p cid sol2 now2
       \<and> (Difficulty c \<le> int (leadingZeros (computeHash H (Nonce c) sol2))
            \<and> \<not> time_After now2 (ExpiresAt c)
          \<longrightarrow> fst (Verify H (snd (Verify H p cid sol now)) cid sol2 now2) = Inr True)"
proof -
  from assms(3) have nonneg: "\<not> Difficulty c < 0"
    by linarith
  from assms(3) nonneg
  have "verifyHash (computeHash H (Nonce c) sol) (Difficulty c) = Inr False"
    by (simp add: verifyHash_leadingZeros)
  with assms(1,2) have first: "Verify H p cid sol now = (Inr False, p)"
    by (simp add: Verify_live)
  have retry: "fst (Verify H p cid sol2 now2) = Inr True"
    if "Difficulty c \<le> int (leadingZeros (computeHash H (Nonce c) sol2))"
      and "\<not> time_After now2 (ExpiresAt c)"
    using that assms(1) nonneg by (simp add: Verify_live verifyHash_leadingZeros)
  from first retry show ?thesis
    by simp
qed

theorem C8_hash_mismatch_keeps_challenge_witness:
  "int (leadingZeros (computeHash toyH ''abc'' ''0'')) < 2
   \<and> 2 \<le> int (leadingZeros (computeHash toyH ''abc'' ''100''))
   \<and> Verify toyH (snd (GenerateChallenge (NewProofOfWork 2) ''pow_1'' ''abc'' 5 5))
        ''pow_1'' ''0'' 7
       = (Inr False, snd (GenerateChallenge (NewProofOfWork 2) ''pow_1'' ''abc'' 5 5))
   \<and> fst (Verify toyH
            (snd (Verify toyH (snd (GenerateChallenge (NewProofOfWork 2) ''pow_1'' ''abc'' 5 5))
                   ''pow_1'' ''0'' 7))
            ''pow_1'' ''100'' 8) = Inr True"
proof -
  let ?p = "snd (GenerateChallenge (NewProofOfWork 2) ''pow_1'' ''abc'' 5 5)"
  let ?c = "fst (GenerateChallenge (NewProofOfWork 2) ''pow_1'' ''abc'' 5 5)"
  have a: "challenges ?p ''pow_1'' = Some ?c"
    by (simp add: GenerateChallenge_def Let_def)
  have b: "\<not> time_After 7 (ExpiresAt ?c)"
    by (simp add: GenerateChallenge_def Let_def time_After_def time_Add_def
        Minute_def Second_def)
  have b2: "\<not> time_After 8 (ExpiresAt ?c)"
    by (simp add: GenerateChallenge_def Let_def time_After_def time_Add_def
        Minute_def Second_def)
  have nd: "Nonce ?c = ''abc''" "Difficulty ?c = 2"
    by (simp_all add: GenerateChallenge_def Let_def NewProofOfWork_def)
  have z0: "int (leadingZeros (computeHash toyH ''abc'' ''0'')) < 2"
    by (simp add: leadingZeros_def computeHash_def toyH_def)
  have z2: "2 \<le> int (leadingZeros (computeHash toyH ''abc'' ''100''))"
    by code_simp
  have c: "int (leadingZeros (computeHash toyH (Nonce ?c) ''0'')) < Difficulty ?c"
    using z0 by (simp add: nd)
  have d: "Difficulty ?c \<le> int (leadingZeros (computeHash toyH (Nonce ?c) ''100''))"
    using z2 by (simp add: nd)
  note inst = C8_hash_mismatch_keeps_challenge [OF a b c, of "''100''" 8]
  from inst have e: "Verify toyH ?p ''pow_1'' ''0'' 7 = (Inr False, ?p)"
    by (rule conjunct1)
  from inst d b2
  have f: "fst (Verify toyH (snd (Verify toyH ?p ''pow_1'' ''0'' 7)) ''pow_1'' ''100'' 8)
             = Inr True"
    by blast
  from z0 z2 e f show ?thesis by blast
qed

text \<open>
  Claim C6. \<open>SetDifficulty\<close> leaves the stored challenges as they are, so a challenge
  issued while the engine's difficulty was \<open>d1\<close> still carries \<open>d1\<close> after
  \<open>SetDifficulty d2\<close>; \<open>Verify\<close> before expiry tests the digest against \<open>d1\<close>
  (for \<open>d1 \<ge> 0\<close>: it returns true exactly when the digest has at least \<open>d1\<close>
  leading zero digits), whatever \<open>d2\<close> is; and a challenge issued after the call
  carries \<open>d2\<close>.
\<close>

theorem C6_set_difficulty_keeps_issued_difficulty:
  assumes "difficulty p = d1"
    and "\<not> time_After now (time_Add t2 (10 * Minute))"
  shows "challenges (SetDifficulty q d2) = challenges q
       \<and> challenges (SetDifficulty (snd (GenerateChallenge p cid nonce t1 t2)) d2) cid
           = Some (fst (GenerateChallenge p cid nonce t1 t2))
       \<and> Difficulty (fst (GenerateChallenge p cid nonce t1 t2)) = d1
       \<and> fst (Verify H (SetDifficulty (snd (GenerateChallenge p cid nonce t1 t2)) d2) cid sol now)
           = verifyHash (computeHash H nonce sol) d1
       \<and> (0 \<le> d1 \<longrightarrow>
            fst (Verify H (SetDifficulty (snd (GenerateChallenge p cid nonce t1 t2)) d2)
                   cid sol now)
              = Inr (d1 \<le> int (leadingZeros (computeHash H nonce sol))))
       \<and> Difficulty (fst (GenerateChallenge
                             (SetDifficulty (snd (GenerateChallenge p cid nonce t1 t2)) d2)
                             cid' nonce' t3 t4)) = d2"
proof -
  let ?c = "fst (GenerateChallenge p cid nonce t1 t2)"
  let ?p2 = "SetDifficulty (snd (GenerateChallenge p cid nonce t1 t2)) d2"
  have keep: "challenges (SetDifficulty q d2) = challenges q"
    by (simp add: SetDifficulty_def)
  have stored: "challenges ?p2 cid = Some ?c"
    by (simp add: SetDifficulty_def GenerateChallenge_def Let_def)
  have fields: "Difficulty ?c = d1" "Nonce ?c = nonce" "ExpiresAt ?c = time_Add t2 (10 * Minute)"
    using assms(1) by (simp_all add: GenerateChallenge_def Let_def)
  from assms(2) have live: "\<not> time_After now (ExpiresAt ?c)"
    by (simp add: fields)
  have ver: "fst (Verify H ?p2 cid sol now) = verifyHash (computeHash H nonce sol) d1"
    using Verify_live [OF stored live, of H sol]
    by (simp add: fields split: sum.splits)
  have later: "Difficulty (fst (GenerateChallenge ?p2 cid' nonce' t3 t4)) = d2"
    by (simp add: SetDifficulty_def GenerateChallenge_def Let_def)
  from keep stored fields(1) ver later show ?thesis
    by (simp add: verifyHash_leadingZeros)
qed

theorem C6_set_difficulty_keeps_issued_difficulty_witness:
  "difficulty (NewProofOfWork 2) = 2
   \<and> \<not> time_After 7 (time_Add 5 (10 * Minute))
   \<and> (0::int) \<le> 2
   \<and> int (leadingZeros (computeHash toyH ''abc'' ''10'')) = 1
   \<and> fst (Verify toyH
            (SetDifficulty (snd (GenerateChallenge (NewProofOfWork 2) ''pow_1'' ''abc'' 5 5)) 1)
            ''pow_1'' ''10'' 7) = Inr False"
proof -
  have a: "difficulty (NewProofOfWork 2) = 2"
    by (simp add: NewProofOfWork_def)
  have b: "\<not> time_After 7 (time_Add 5 (10 * Minute))"
    by (simp add: time_After_def time_Add_def Minute_def Second_def)
  have z: "int (leadingZeros (computeHash toyH ''abc'' ''10'')) = 1"
    by (simp add: leadingZeros_def computeHash_def toyH_def)
  have n: "(0::int) \<le> 2"
    by simp
  note inst = C6_set_difficulty_keeps_issued_difficulty
         [OF a b, where q = "NewProofOfWork 2" and ?d2.0 = 1 and cid = "''pow_1''"
            and nonce = "''abc''" and ?t1.0 = 5 and H = toyH and sol = "''10''"
            and cid' = "''pow_2''" and nonce' = "''xyz''" and ?t3.0 = 9 and ?t4.0 = 9]
  from inst n
  have "fst (Verify toyH
              (SetDifficulty (snd (GenerateChallenge (NewProofOfWork 2) ''pow_1'' ''abc'' 5 5)) 1)
              ''pow_1'' ''10'' 7)
          = Inr (2 \<le> int (leadingZeros (computeHash toyH ''abc'' ''10'')))"
    by blast
  then have c: "fst (Verify toyH
              (SetDifficulty (snd (GenerateChallenge (NewProofOfWork 2) ''pow_1'' ''abc'' 5 5)) 1)
              ''pow_1'' ''10'' 7) = Inr False"
    unfolding z by simp
  from a b n z c show ?thesis by blast
qed

text \<open>
  Claim C9, as stated, fails for a negative difficulty. The adaptive controller with base
  difficulty 0 pushes \<open>-1\<close> into the engine under low load; \<open>Verify\<close> on a
  challenge issued then does not return true: \<open>strings.Repeat\<close> panics on the
  negative count.
\<close>

theorem C9_negative_difficulty_counterexample:
  "difficulty (pow (UpdateLoad (NewAdaptiveDifficulty (NewProofOfWork 0) 0) 10)) = - 1
   \<and> fst (Verify toyH
            (snd (GenerateChallenge
                    (pow (UpdateLoad (NewAdaptiveDifficulty (NewProofOfWork 0) 0) 10))
                    ''pow_1'' ''abc'' 5 5))
            ''pow_1'' ''0'' 7) = Inl PanicNegativeRepeat
   \<and> fst (Verify toyH
            (snd (GenerateChallenge
                    (pow (UpdateLoad (NewAdaptiveDifficulty (NewProofOfWork 0) 0) 10))
                    ''pow_1'' ''abc'' 5 5))
            ''pow_1'' ''0'' 7) \<noteq> Inr True"
  by (simp add: UpdateLoad_def NewAdaptiveDifficulty_def NewProofOfWork_def SetDifficulty_def
      GenerateChallenge_def Verify_def Let_def time_After_def time_Add_def Minute_def
      Second_def verifyHash_def strings_Repeat_def)

text \<open>
  Claim C9, amended. If the engine's difficulty is zero when a challenge is issued, then
  \<open>Verify\<close> on that challenge returns true for every candidate solution before expiry.
  Difficulty zero is reachable: \<open>SetDifficulty\<close> stores any value, and the adaptive
  controller with base difficulty 1 pushes 0 into the engine for every load below half of
  the baseline load 50.
\<close>

theorem C9_zero_difficulty_accepts_every_candidate:
  assumes "difficulty p = 0"
    and "\<not> time_After now (time_Add t2 (10 * Minute))"
    and "load < 25"
  shows "fst (Verify H (snd (GenerateChallenge p cid nonce t1 t2)) cid sol now) = Inr True
       \<and> difficulty (SetDifficulty q 0) = 0
       \<and> difficulty (pow (UpdateLoad (NewAdaptiveDifficulty q 1) load)) = 0"
proof -
  let ?c = "fst (GenerateChallenge p cid nonce t1 t2)"
  let ?p1 = "snd (GenerateChallenge p cid nonce t1 t2)"
  have stored: "challenges ?p1 cid = Some ?c"
    by (simp add: GenerateChallenge_def Let_def)
  have fields: "Difficulty ?c = 0" "ExpiresAt ?c = time_Add t2 (10 * Minute)"
    using assms(1) by (simp_all add: GenerateChallenge_def Let_def)
  from assms(2) have live: "\<not> time_After now (ExpiresAt ?c)"
    by (simp add: fields)
  have ver: "fst (Verify H ?p1 cid sol now) = Inr True"
    using Verify_live [OF stored live, of H sol]
    by (simp add: fields verifyHash_leadingZeros)
  have reach: "difficulty (pow (UpdateLoad (NewAdaptiveDifficulty q 1) load)) = 0"
    using assms(3)
    by (simp add: UpdateLoad_def NewAdaptiveDifficulty_def SetDifficulty_def Let_def)
  from ver reach show ?thesis
    by (simp add: SetDifficulty_def)
qed

theorem C9_zero_difficulty_accepts_every_candidate_witness:
  "difficulty (pow (UpdateLoad (NewAdaptiveDifficulty (NewProofOfWork 1) 1) 10)) = 0
   \<and> \<not> time_After 7 (time_Add 5 (10 * Minute))
   \<and> (10 :: rat) < 25
   \<and> fst (Verify toyH
            (snd (GenerateChallenge
                    (pow (UpdateLoad (NewAdaptiveDifficulty (NewProofOfWork 1) 1) 10))
                    ''pow_1'' ''abc'' 5 5))
            ''pow_1'' ''anything'' 7) = Inr True"
proof -
  have c: "(10 :: rat) < 25"
    by simp
  have b: "\<not> time_After 7 (time_Add 5 (10 * Minute))"
    by (simp add: time_After_def time_Add_def Minute_def Second_def)
  have a: "difficulty (pow (UpdateLoad (NewAdaptiveDifficulty (NewProofOfWork 1) 1) 10)) = 0"
    using C9_zero_difficulty_accepts_every_candidate
            [OF _ b c, where p = "SetDifficulty (NewProofOfWork 1) 0"
               and q = "NewProofOfWork 1"]
    by (simp add: SetDifficulty_def)
  from C9_zero_difficulty_accepts_every_candidate
         [OF a b c, where H = toyH and cid = "''pow_1''" and nonce = "''abc''"
            and ?t1.0 = 5 and sol = "''anything''" and q = "NewProofOfWork 1"]
  have "fst (Verify toyH
            (snd (GenerateChallenge
                    (pow (UpdateLoad (NewAdaptiveDifficulty (NewProofOfWork 1) 1) 10))
                    ''pow_1'' ''abc'' 5 5))
            ''pow_1'' ''anything'' 7) = Inr True"
    by (rule conjunct1)
  with a b c show ?thesis by blast
qed

section \<open>Claims about the CAPTCHA service\<close>

lemma generateSolution_loop_length:
  "generateSolution_loop chars rnd i k = Inr sol \<Longrightarrow> length sol = k"
proof (induction k arbitrary: i sol)
  case 0
  then show ?case by simp
next
  case (Suc k)
  from Suc.prems obtain n rest where
    "generateSolution_loop chars rnd (Suc i) k = Inr rest" and "sol = chars ! n # rest"
    by (auto split: option.splits if_splits sum.splits)
  with Suc.IH show ?case by simp
qed

lemma generateSolution_length:
  assumes "generateSolution s rnd = Inr sol"
  shows "int (length sol) = Length (options s)"
proof -
  from assms have nonneg: "0 \<le> Length (options s)"
    by (simp add: generateSolution_def Let_def split: if_splits)
  from assms
  have "generateSolution_loop (solution_chars (opt_Difficulty (options s))) rnd 0
          (nat (Length (options s))) = Inr sol"
    by (simp add: generateSolution_def Let_def split: if_splits)
  from generateSolution_loop_length [OF this] nonneg show ?thesis
    by simp
qed

lemma Generate_Inr:
  assumes "Generate s idr rnd img t = (Inr c, s1)"
  shows "generateSolution s rnd = Inr (cap_Solution c)
       \<and> s1 = s\<lparr>store := store_Set (store s) c\<rparr>
       \<and> cap_ExpiresAt c = time_Add t (TTL (options s))"
  using assms
  by (auto simp add: Generate_def Let_def split: option.splits sum.splits)

text \<open>
  Claim C3. For a CAPTCHA returned by \<open>Generate\<close>, the length of the solution is the
  configured length. \<open>Validate\<close> on its id before expiry returns true exactly when the
  candidate equals the stored solution; whatever the candidate and the time, the entry is
  gone after the call, so every second \<open>Validate\<close> on the id returns false, after a
  success as well as after a failure.
\<close>

theorem C3_captcha_length_and_one_time_validation:
  assumes "Generate s idr rnd img t = (Inr c, s1)"
  shows "int (length (cap_Solution c)) = Length (options s)
       \<and> (\<not> time_After now (cap_ExpiresAt c) \<longrightarrow>
            fst (Validate s1 (cap_ID c) sol now) = (sol = cap_Solution c))
       \<and> store_Get (store (snd (Validate s1 (cap_ID c) sol now))) (cap_ID c) = None
       \<and> fst (Validate (snd (Validate s1 (cap_ID c) sol now)) (cap_ID c) sol' now') = False"
proof -
  from Generate_Inr [OF assms]
  have sol: "generateSolution s rnd = Inr (cap_Solution c)"
    and s1: "s1 = s\<lparr>store := store_Set (store s) c\<rparr>"
    by simp_all
  have len: "int (length (cap_Solution c)) = Length (options s)"
    using sol by (rule generateSolution_length)
  have stored: "store_Get (store s1) (cap_ID c) = Some c"
    by (simp add: s1 store_Get_def store_Set_def)
  have cmp: "fst (Validate s1 (cap_ID c) sol now) = (sol = cap_Solution c)"
    if "\<not> time_After now (cap_ExpiresAt c)"
    using that stored by (auto simp add: Validate_def Let_def)
  have gone: "store_Get (store (snd (Validate s1 (cap_ID c) sol now))) (cap_ID c) = None"
    using stored by (simp add: Validate_def Let_def store_Get_def store_Delete_def)
  then have again:
    "fst (Validate (snd (Validate s1 (cap_ID c) sol now)) (cap_ID c) sol' now') = False"
    by (simp add: Validate_def)
  from len cmp gone again show ?thesis
    by blast
qed

theorem C3_captcha_length_and_one_time_validation_witness:
  "Generate example_service (Some ''abcdefghijklmnop'') (\<lambda>i. Some (2 * i))
      (\<lambda>s. Inr [137, 80]) 100 = (Inr example_captcha, example_issued)
   \<and> Length (options example_service) = 4
   \<and> length (cap_Solution example_captcha) = 4
   \<and> \<not> time_After 200 (cap_ExpiresAt example_captcha)
   \<and> fst (Validate example_issued ''abcdefghijklmnop'' ''ACEG'' 200) = True
   \<and> fst (Validate (snd (Validate example_issued ''abcdefghijklmnop'' ''ACEG'' 200))
            ''abcdefghijklmnop'' ''ACEG'' 300) = False"
proof -
  have opts: "options example_service =
                \<lparr>Length = 4, Width = 200, Height = 80, TTL = 60 * Second,
                 opt_Difficulty = ''medium''\<rparr>"
    by (simp add: example_service_def NewCaptchaService_def Let_def Second_def)
  have sol: "generateSolution example_service (\<lambda>i. Some (2 * i)) = Inr ''ACEG''"
    by (simp add: generateSolution_def opts solution_chars_def Let_def numeral_eq_Suc)
  have g: "Generate example_service (Some ''abcdefghijklmnop'') (\<lambda>i. Some (2 * i))
             (\<lambda>s. Inr [137, 80]) 100 = (Inr example_captcha, example_issued)"
    by (simp add: Generate_def sol opts Let_def example_captcha_def example_issued_def
        time_Add_def Second_def)
  have len: "Length (options example_service) = 4"
    by (simp add: opts)
  have live: "\<not> time_After 200 (cap_ExpiresAt example_captcha)"
    by (simp add: time_After_def example_captcha_def)
  have cid: "cap_ID example_captcha = ''abcdefghijklmnop''"
    and cs: "cap_Solution example_captcha = ''ACEG''"
    by (simp_all add: example_captcha_def)
  note inst = C3_captcha_length_and_one_time_validation
                [OF g, where now = 200 and sol = "''ACEG''" and sol' = "''ACEG''"
                   and now' = 300]
  from inst have a: "int (length (cap_Solution example_captcha)) = Length (options example_service)"
    by (rule conjunct1)
  from inst live have b: "fst (Validate example_issued (cap_ID example_captcha) ''ACEG'' 200)
                            = (''ACEG'' = cap_Solution example_captcha)"
    by blast
  from inst have c: "fst (Validate (snd (Validate example_issued (cap_ID example_captcha)
                                            ''ACEG'' 200))
                             (cap_ID example_captcha) ''ACEG'' 300) = False"
    by blast
  from a len have a': "length (cap_Solution example_captcha) = 4"
    by simp
  from b have b': "fst (Validate example_issued ''abcdefghijklmnop'' ''ACEG'' 200) = True"
    unfolding cid cs by simp
  from c have c': "fst (Validate (snd (Validate example_issued ''abcdefghijklmnop'' ''ACEG'' 200))
            ''abcdefghijklmnop'' ''ACEG'' 300) = False"
    unfolding cid .
  from g len a' live b' c' show ?thesis
    by blast
qed

section \<open>Claims about the metrics aggregator\<close>

lemma RecordRequest_counters:
  "totalRequests (RecordRequest h d m r) = totalRequests m + 1"
  "successfulRequests (RecordRequest h d m r)
     = (if Success r then successfulRequests m + 1 else successfulRequests m)"
  "failedRequests (RecordRequest h d m r)
     = (if Success r then failedRequests m else failedRequests m + 1)"
  by (simp_all add: RecordRequest_def recordResponseTime_def recordIPAndTime_def recordOutcome_def Let_def)

lemma RecordRequest_uniqueAddresses:
  "uniqueAddresses (RecordRequest h d m r)
     = (if Success r then AList.update (Address r) True (uniqueAddresses m)
        else uniqueAddresses m)"
  by (simp add: RecordRequest_def recordResponseTime_def recordIPAndTime_def recordOutcome_def Let_def)

lemma RecordRequest_uniqueIPs:
  "uniqueIPs (RecordRequest h d m r) = AList.update (IP r) True (uniqueIPs m)"
  by (simp add: RecordRequest_def recordResponseTime_def recordIPAndTime_def recordOutcome_def Let_def)

lemma RecordRequest_errorCounts:
  "errorCounts (RecordRequest h d m r)
     = (if \<not> Success r \<and> ErrorType r \<noteq> [] then increment (ErrorType r) (errorCounts m)
        else errorCounts m)"
  by (simp add: RecordRequest_def recordResponseTime_def recordIPAndTime_def recordOutcome_def Let_def)

lemma NewMetricsTracker_fields:
  "totalRequests NewMetricsTracker = 0"
  "successfulRequests NewMetricsTracker = 0"
  "failedRequests NewMetricsTracker = 0"
  "uniqueAddresses NewMetricsTracker = []"
  "uniqueIPs NewMetricsTracker = []"
  "errorCounts NewMetricsTracker = []"
  by (simp_all add: NewMetricsTracker_def)

text \<open>
  Claim C5, as stated, fails: the address of a failed request is not added to the
  unique-address set. After one successful and one failed request with distinct addresses
  and distinct IPs the summary reports one unique address, not two.
\<close>

theorem C5_failed_address_not_counted_counterexample:
  "Address example_success \<noteq> Address example_failure
   \<and> IP example_success \<noteq> IP example_failure
   \<and> UniqueAddresses (GetSummary (RecordRequest example_hourOf example_dateOf
        (RecordRequest example_hourOf example_dateOf NewMetricsTracker example_success)
        example_failure)) = 1
   \<and> UniqueAddresses (GetSummary (RecordRequest example_hourOf example_dateOf
        (RecordRequest example_hourOf example_dateOf NewMetricsTracker example_success)
        example_failure)) \<noteq> 2
   \<and> map_of (uniqueAddresses (RecordRequest example_hourOf example_dateOf
        (RecordRequest example_hourOf example_dateOf NewMetricsTracker example_success)
        example_failure)) (Address example_failure) = None"
  by (simp add: GetSummary_def RecordRequest_uniqueAddresses NewMetricsTracker_fields
      example_success_def example_failure_def)

text \<open>
  Claim C5, amended. \<open>RecordRequest\<close> adds the request's IP to the unique-IP set for
  every recorded request, and the request's address to the unique-address set for a
  successful request only. Hence after recording, on a new tracker and in either order, one
  successful and one failed request with distinct IPs, the failed one with a non-empty
  error type, \<open>GetSummary\<close> reports \<open>TotalRequests = 2\<close>,
  \<open>SuccessfulRequests = 1\<close>, \<open>FailedRequests = 1\<close>, \<open>UniqueAddresses = 1\<close>,
  \<open>UniqueIPs = 2\<close>, and the error breakdown holds the failed request's error type
  with count 1.
\<close>

theorem C5_summary_after_one_success_and_one_failure:
  assumes "Success r1" and "\<not> Success r2" and "IP r1 \<noteq> IP r2" and "ErrorType r2 \<noteq> []"
    and "s = GetSummary (RecordRequest h d (RecordRequest h d NewMetricsTracker r1) r2)
         \<or> s = GetSummary (RecordRequest h d (RecordRequest h d NewMetricsTracker r2) r1)"
  shows "map_of (uniqueIPs (RecordRequest h d m r)) (IP r) = Some True
       \<and> uniqueAddresses (RecordRequest h d m r)
           = (if Success r then AList.update (Address r) True (uniqueAddresses m)
              else uniqueAddresses m)
       \<and> TotalRequests s = 2 \<and> SuccessfulRequests s = 1 \<and> FailedRequests s = 1
       \<and> UniqueAddresses s = 1 \<and> UniqueIPs s = 2
       \<and> map_of (ErrorBreakdown s) (ErrorType r2) = Some 1"
proof -
  have ips: "map_of (uniqueIPs (RecordRequest h d m r)) (IP r) = Some True"
    by (simp add: RecordRequest_uniqueIPs update_conv')
  have summary: "TotalRequests s = 2 \<and> SuccessfulRequests s = 1 \<and> FailedRequests s = 1
       \<and> UniqueAddresses s = 1 \<and> UniqueIPs s = 2
       \<and> map_of (ErrorBreakdown s) (ErrorType r2) = Some 1"
    using assms(5)
  proof
    assume s: "s = GetSummary (RecordRequest h d (RecordRequest h d NewMetricsTracker r1) r2)"
    have "TotalRequests s = 2" "SuccessfulRequests s = 1" "FailedRequests s = 1"
      using assms(1,2)
      by (simp_all add: s GetSummary_def RecordRequest_counters NewMetricsTracker_fields)
    moreover have "UniqueAddresses s = 1"
      using assms(1,2)
      by (simp add: s GetSummary_def RecordRequest_uniqueAddresses NewMetricsTracker_fields)
    moreover have "UniqueIPs s = 2"
      using assms(3)
      by (simp add: s GetSummary_def RecordRequest_uniqueIPs NewMetricsTracker_fields)
    moreover have "map_of (ErrorBreakdown s) (ErrorType r2) = Some 1"
      using assms(1,2,4)
      by (simp add: s GetSummary_def RecordRequest_errorCounts NewMetricsTracker_fields
          increment_def copyMap_def)
    ultimately show ?thesis
      by simp
  next
    assume s: "s = GetSummary (RecordRequest h d (RecordRequest h d NewMetricsTracker r2) r1)"
    have "TotalRequests s = 2" "SuccessfulRequests s = 1" "FailedRequests s = 1"
      using assms(1,2)
      by (simp_all add: s GetSummary_def RecordRequest_counters NewMetricsTracker_fields)
    moreover have "UniqueAddresses s = 1"
      using assms(1,2)
      by (simp add: s GetSummary_def RecordRequest_uniqueAddresses NewMetricsTracker_fields)
    moreover have "UniqueIPs s = 2"
      using assms(3)
      by (simp add: s GetSummary_def RecordRequest_uniqueIPs NewMetricsTracker_fields)
    moreover have "map_of (ErrorBreakdown s) (ErrorType r2) = Some 1"
      using assms(1,2,4)
      by (simp add: s GetSummary_def RecordRequest_errorCounts NewMetricsTracker_fields
          increment_def copyMap_def)
    ultimately show ?thesis
      by simp
  qed
  from ips summary show ?thesis
    by (simp add: RecordRequest_uniqueAddresses)
qed

theorem C5_summary_after_one_success_and_one_failure_witness:
  "Success example_success \<and> \<not> Success example_failure
   \<and> IP example_success \<noteq> IP example_failure \<and> ErrorType example_failure \<noteq> []
   \<and> UniqueAddresses (GetSummary (RecordRequest example_hourOf example_dateOf
        (RecordRequest example_hourOf example_dateOf NewMetricsTracker example_success)
        example_failure)) = 1
   \<and> UniqueIPs (GetSummary (RecordRequest example_hourOf example_dateOf
        (RecordRequest example_hourOf example_dateOf NewMetricsTracker example_success)
        example_failure)) = 2
   \<and> map_of (ErrorBreakdown (GetSummary (RecordRequest example_hourOf example_dateOf
        (RecordRequest example_hourOf example_dateOf NewMetricsTracker example_success)
        example_failure))) ''captcha_failed'' = Some 1"
proof -
  let ?s = "GetSummary (RecordRequest example_hourOf example_dateOf
        (RecordRequest example_hourOf example_dateOf NewMetricsTracker example_success)
        example_failure)"
  have a: "Success example_success" and b: "\<not> Success example_failure"
    and c: "IP example_success \<noteq> IP example_failure"
    and d: "ErrorType example_failure \<noteq> []"
    and e: "ErrorType example_failure = ''captcha_failed''"
    by (simp_all add: example_success_def example_failure_def)
  have f: "?s = ?s \<or> ?s = GetSummary (RecordRequest example_hourOf example_dateOf
        (RecordRequest example_hourOf example_dateOf NewMetricsTracker example_failure)
        example_success)"
    by simp
  note inst = C5_summary_after_one_success_and_one_failure
                [OF a b c d f, where m = NewMetricsTracker and r = example_success]
  from inst a b c d show ?thesis
    unfolding e by blast
qed

section \<open>Helper lemmas for the abuse detector\<close>


lemma time_Sub_less_Hour: "time_Sub t u < Hour \<longleftrightarrow> t - u < Hour"
  by (simp add: time_Sub_def maxDuration_def minDuration_def Hour_def Minute_def Second_def)

lemma CheckRequest_unblocked:
  assumes "\<not> activeBlock (blockedIPs ad) ip (t_ipBlock clk)"
    and "\<not> activeBlock (blockedAddrs ad) address (t_addrBlock clk)"
  shows "CheckRequest lib ad ip address clk
           = checkTracker lib (ad\<lparr>blockedIPs := (blockedIPs ad)(ip := None),
                                   blockedAddrs := (blockedAddrs ad)(address := None)\<rparr>)
               ip address clk"
proof -
  have ip: "checkBlockedIP ad ip (t_ipBlock clk)
              = (None, ad\<lparr>blockedIPs := (blockedIPs ad)(ip := None)\<rparr>)"
  proof (cases "blockedIPs ad ip")
    case None
    then have "(blockedIPs ad)(ip := None) = blockedIPs ad"
      by (simp add: fun_upd_idem)
    with None show ?thesis
      by (simp add: checkBlockedIP_def)
  next
    case (Some u)
    with assms(1) show ?thesis
      by (simp add: checkBlockedIP_def activeBlock_def)
  qed
  have addr: "checkBlockedAddr (ad\<lparr>blockedIPs := (blockedIPs ad)(ip := None)\<rparr>) address
                (t_addrBlock clk)
              = (None, ad\<lparr>blockedIPs := (blockedIPs ad)(ip := None),
                          blockedAddrs := (blockedAddrs ad)(address := None)\<rparr>)"
  proof (cases "blockedAddrs ad address")
    case None
    then have "(blockedAddrs ad)(address := None) = blockedAddrs ad"
      by (simp add: fun_upd_idem)
    with None show ?thesis
      by (simp add: checkBlockedAddr_def)
  next
    case (Some u)
    with assms(2) show ?thesis
      by (simp add: checkBlockedAddr_def activeBlock_def)
  qed
  show ?thesis
    by (simp add: CheckRequest_def ip addr)
qed







lemma countInSubnet_filter:
  "countInSubnet lib subnet keys = int (length (filter (inSubnet lib subnet) keys))"
  by (induction keys) (simp_all add: inSubnet_def split: option.splits)

lemma getOrCreateTracker_lookup:
  "getOrCreateTracker trackers key now = (tracker, tracked) \<Longrightarrow>
     map_of tracked key = Some tracker"
  by (auto simp add: getOrCreateTracker_def Let_def update_conv' split: option.splits)

lemma getOrCreateTracker_keys:
  assumes "getOrCreateTracker trackers key now = (tracker, tracked)"
  shows "set (map fst tracked) = insert key (set (map fst trackers))"
    and "distinct (map fst trackers) \<Longrightarrow> distinct (map fst tracked)"
proof -
  show "set (map fst tracked) = insert key (set (map fst trackers))"
  proof (cases "map_of trackers key")
    case None
    with assms have "tracked = AList.update key tracker trackers"
      by (auto simp add: getOrCreateTracker_def Let_def)
    then show ?thesis
      by (auto simp add: update_keys)
  next
    case (Some t)
    with assms have "tracked = trackers"
      by (simp add: getOrCreateTracker_def)
    moreover from Some have "key \<in> set (map fst trackers)"
      by (metis map_of_eq_None_iff option.distinct(1) set_map)
    ultimately show ?thesis
      by auto
  qed
  show "distinct (map fst tracked)" if "distinct (map fst trackers)"
    using assms that
    by (auto simp add: getOrCreateTracker_def Let_def distinct_update split: option.splits)
qed

lemma count_with_requester:
  assumes "distinct keys" and "set keys = insert ip S" and "P ip"
  shows "length (filter P keys) = card {k \<in> S. k \<noteq> ip \<and> P k} + 1"
proof -
  have "length (filter P keys) = card (set (filter P keys))"
    using assms(1) by (metis distinct_card distinct_filter)
  also have "set (filter P keys) = insert ip {k \<in> S. k \<noteq> ip \<and> P k}"
    using assms(2,3) by auto
  also have "card (insert ip {k \<in> S. k \<noteq> ip \<and> P k}) = card {k \<in> S. k \<noteq> ip \<and> P k} + 1"
  proof -
    have "finite S"
      using assms(2) by (metis List.finite_set finite_insert)
    then have "finite {k \<in> S. k \<noteq> ip \<and> P k}"
      by simp
    then show ?thesis
      by simp
  qed
  finally show ?thesis .
qed

lemma checkSubnetAbuse_count:
  assumes "ParseIP lib ip = Some parsedIP"
    and "requesterSubnet lib ip parsedIP = Some subnet"
  shows "checkSubnetAbuse lib ad ip
           = (countInSubnet lib subnet (map fst (ipAttempts ad)) > 5)"
  using assms by (simp add: checkSubnetAbuse_def)

lemma checkHeuristics_subnet:
  assumes "SubnetCheckEnabled (config ad)"
  shows "checkSubnetAbuse lib ad ip \<Longrightarrow>
           fst (checkHeuristics lib ad ip tr result)
             = result\<lparr>Allowed := False,
                      Reason := ''Multiple requests detected from your subnet'',
                      RiskScore := RiskScore result + 30\<rparr>"
    and "\<not> checkSubnetAbuse lib ad ip \<Longrightarrow> Reason result = [] \<Longrightarrow>
           Reason (fst (checkHeuristics lib ad ip tr result))
             \<noteq> ''Multiple requests detected from your subnet''"
  using assms by (simp_all add: checkHeuristics_def Let_def)

lemma update_existing_keys:
  "map_of al k = Some v \<Longrightarrow> map fst (AList.update k w al) = map fst al"
  by (metis (no_types, lifting) domI dom_map_of_conv_image_fst set_map update_keys)

lemma checkTracker_passed:
  assumes "getOrCreateTracker (ipAttempts ad) ip (t_create clk) = (tracker, tracked)"
    and "\<not> (time_Sub (t_now clk) (FirstAttempt tracker) < Hour
            \<and> Count tracker \<ge> MaxAttemptsPerHour (config ad))"
    and "SuccessfulCount tracker + FailedCount tracker < MaxAttemptsPerDay (config ad)"
  shows "\<exists>tr' ad'. checkTracker lib ad ip address clk
            = checkHeuristics lib ad' ip tr'
                \<lparr>Allowed = True, Reason = [],
                 RiskScore = calculateRiskScore (config ad) tracker ip address (t_since clk),
                 BlockedUntil = None, RecommendedDelay = 0\<rparr>
           \<and> map fst (ipAttempts ad') = map fst tracked \<and> config ad' = config ad"
proof (cases "time_Sub (t_now clk) (FirstAttempt tracker) < Hour")
  case True
  with assms(2) have "\<not> Count tracker \<ge> MaxAttemptsPerHour (config ad)"
    by simp
  with True assms(1,3)
  have "checkTracker lib ad ip address clk
          = checkHeuristics lib (ad\<lparr>ipAttempts := tracked\<rparr>) ip tracker
              \<lparr>Allowed = True, Reason = [],
               RiskScore = calculateRiskScore (config ad) tracker ip address (t_since clk),
               BlockedUntil = None, RecommendedDelay = 0\<rparr>"
    by (simp add: checkTracker_def Let_def checkDaily_def)
  then show ?thesis
    by (intro exI [of _ tracker] exI [of _ "ad\<lparr>ipAttempts := tracked\<rparr>"]) simp
next
  case False
  let ?tr = "tracker\<lparr>Count := 0, FirstAttempt := t_now clk\<rparr>"
  let ?ad = "ad\<lparr>ipAttempts := AList.update ip ?tr tracked\<rparr>"
  from False assms(1,3)
  have "checkTracker lib ad ip address clk
          = checkHeuristics lib ?ad ip ?tr
              \<lparr>Allowed = True, Reason = [],
               RiskScore = calculateRiskScore (config ad) tracker ip address (t_since clk),
               BlockedUntil = None, RecommendedDelay = 0\<rparr>"
    by (simp add: checkTracker_def Let_def checkDaily_def)
  moreover have "map fst (ipAttempts ?ad) = map fst tracked"
    using update_existing_keys [OF getOrCreateTracker_lookup [OF assms(1)]] by simp
  ultimately show ?thesis
    by (intro exI [of _ ?tr] exI [of _ ?ad]) simp
qed

text \<open>
  Claim C10. With subnet checking enabled, let the requester's IP parse, let its /24 or
  /64 network be derived, and let that network contain the requester. \<open>CheckRequest\<close>
  looks up or creates the requester's tracker before the subnet check, so the requester
  is among the tracked IPs that \<open>checkSubnetAbuse\<close> counts: the count is the number
  of other tracked IPs in the network plus one. Hence a request that passes the block,
  hourly and daily checks is denied with reason "Multiple requests detected from your
  subnet" exactly when at least five other tracked IPs lie in the requester's network.
\<close>

theorem C10_subnet_count_includes_requester:
  assumes "distinct (map fst (ipAttempts ad))"
    and "SubnetCheckEnabled (config ad)"
    and "ParseIP lib ip = Some parsedIP"
    and "requesterSubnet lib ip parsedIP = Some subnet"
    and "Contains lib subnet parsedIP"
    and "others = card {k \<in> fst ` set (ipAttempts ad). k \<noteq> ip \<and> inSubnet lib subnet k}"
    and "getOrCreateTracker (ipAttempts ad) ip (t_create clk) = (tracker, tracked)"
    and "\<not> activeBlock (blockedIPs ad) ip (t_ipBlock clk)"
    and "\<not> activeBlock (blockedAddrs ad) address (t_addrBlock clk)"
    and "\<not> (time_Sub (t_now clk) (FirstAttempt tracker) < Hour
            \<and> Count tracker \<ge> MaxAttemptsPerHour (config ad))"
    and "SuccessfulCount tracker + FailedCount tracker < MaxAttemptsPerDay (config ad)"
  shows "map_of tracked ip = Some tracker
       \<and> countInSubnet lib subnet (map fst tracked) = int others + 1
       \<and> ((\<not> Allowed (fst (CheckRequest lib ad ip address clk))
            \<and> Reason (fst (CheckRequest lib ad ip address clk))
                = ''Multiple requests detected from your subnet'')
          \<longleftrightarrow> 5 \<le> others)
       \<and> (Reason (fst (CheckRequest lib ad ip address clk))
                = ''Multiple requests detected from your subnet''
          \<longleftrightarrow> 5 \<le> others)"
proof -
  let ?ad = "ad\<lparr>blockedIPs := (blockedIPs ad)(ip := None),
                 blockedAddrs := (blockedAddrs ad)(address := None)\<rparr>"
  let ?M = "''Multiple requests detected from your subnet''"
  have tracked: "map_of tracked ip = Some tracker"
    using assms(7) by (rule getOrCreateTracker_lookup)
  have self: "inSubnet lib subnet ip"
    using assms(3,5) by (simp add: inSubnet_def)
  have "length (filter (inSubnet lib subnet) (map fst tracked))
          = card {k \<in> set (map fst (ipAttempts ad)). k \<noteq> ip \<and> inSubnet lib subnet k} + 1"
    using getOrCreateTracker_keys(2) [OF assms(7) assms(1)]
      getOrCreateTracker_keys(1) [OF assms(7)] self
    by (rule count_with_requester)
  then have count: "countInSubnet lib subnet (map fst tracked) = int others + 1"
    by (simp add: countInSubnet_filter assms(6))
  have g: "getOrCreateTracker (ipAttempts ?ad) ip (t_create clk) = (tracker, tracked)"
    using assms(7) by simp
  from checkTracker_passed [OF g, of lib address] assms(10,11)
  obtain tr' ad' where
    run: "checkTracker lib ?ad ip address clk
            = checkHeuristics lib ad' ip tr'
                \<lparr>Allowed = True, Reason = [],
                 RiskScore = calculateRiskScore (config ?ad) tracker ip address (t_since clk),
                 BlockedUntil = None, RecommendedDelay = 0\<rparr>"
    and keys: "map fst (ipAttempts ad') = map fst tracked"
    and cfg: "config ad' = config ?ad"
    by auto
  have enabled: "SubnetCheckEnabled (config ad')"
    using assms(2) cfg by simp
  have abuse: "checkSubnetAbuse lib ad' ip \<longleftrightarrow> 5 \<le> others"
    using checkSubnetAbuse_count [OF assms(3,4), of ad'] count keys by simp
  have req: "CheckRequest lib ad ip address clk = checkTracker lib ?ad ip address clk"
    using assms(8,9) by (rule CheckRequest_unblocked)
  have iff: "Reason (fst (CheckRequest lib ad ip address clk)) = ?M \<longleftrightarrow> 5 \<le> others"
    and deny: "5 \<le> others \<Longrightarrow> \<not> Allowed (fst (CheckRequest lib ad ip address clk))"
    using checkHeuristics_subnet [OF enabled, where lib = lib and ip = ip and tr = tr'] abuse
    unfolding req run by auto
  from tracked count iff deny show ?thesis
    by blast
qed

theorem C10_subnet_count_includes_requester_witness:
  "distinct (map fst (ipAttempts crowded_detector))
   \<and> SubnetCheckEnabled (config crowded_detector)
   \<and> ParseIP ipv4_lib ''10.0.0.1'' = Some 167772161
   \<and> requesterSubnet ipv4_lib ''10.0.0.1'' 167772161 = Some (655360, 24)
   \<and> Contains ipv4_lib (655360, 24) 167772161
   \<and> card {k \<in> fst ` set (ipAttempts crowded_detector).
            k \<noteq> ''10.0.0.1'' \<and> inSubnet ipv4_lib (655360, 24) k} = 5
   \<and> countInSubnet ipv4_lib (655360, 24)
        (map fst (snd (getOrCreateTracker (ipAttempts crowded_detector) ''10.0.0.1''
                         (t_create example_clock)))) = 6
   \<and> \<not> Allowed (fst (CheckRequest ipv4_lib crowded_detector ''10.0.0.1'' ''aura1a''
                         example_clock))
   \<and> Reason (fst (CheckRequest ipv4_lib crowded_detector ''10.0.0.1'' ''aura1a'' example_clock))
       = ''Multiple requests detected from your subnet''"
proof -
  let ?tr = "\<lparr>Count = 0, FirstAttempt = t_create example_clock, LastAttempt = zeroTime,
              SuccessfulCount = 0, FailedCount = 0, Addresses = []\<rparr>"
  let ?tracked = "ipAttempts crowded_detector @ [(''10.0.0.1'', ?tr)]"
  let ?others = "card {k \<in> fst ` set (ipAttempts crowded_detector).
                       k \<noteq> ''10.0.0.1'' \<and> inSubnet ipv4_lib (655360, 24) k}"
  have a: "distinct (map fst (ipAttempts crowded_detector))"
    by (simp add: crowded_detector_def)
  have b: "SubnetCheckEnabled (config crowded_detector)"
    by (simp add: crowded_detector_def example_config_def)
  have c: "ParseIP ipv4_lib ''10.0.0.1'' = Some 167772161"
    by code_simp
  have d: "requesterSubnet ipv4_lib ''10.0.0.1'' 167772161 = Some (655360, 24)"
    by code_simp
  have e: "Contains ipv4_lib (655360, 24) 167772161"
    by code_simp
  have g: "getOrCreateTracker (ipAttempts crowded_detector) ''10.0.0.1'' (t_create example_clock)
             = (?tr, ?tracked)"
    by (simp add: getOrCreateTracker_def crowded_detector_def Let_def)
  have h: "\<not> activeBlock (blockedIPs crowded_detector) ''10.0.0.1'' (t_ipBlock example_clock)"
    by (simp add: activeBlock_def crowded_detector_def)
  have i: "\<not> activeBlock (blockedAddrs crowded_detector) ''aura1a'' (t_addrBlock example_clock)"
    by (simp add: activeBlock_def crowded_detector_def)
  have j: "\<not> (time_Sub (t_now example_clock) (FirstAttempt ?tr) < Hour
              \<and> Count ?tr \<ge> MaxAttemptsPerHour (config crowded_detector))"
    by (simp add: crowded_detector_def example_config_def)
  have k: "SuccessfulCount ?tr + FailedCount ?tr < MaxAttemptsPerDay (config crowded_detector)"
    by (simp add: crowded_detector_def example_config_def)
  note inst = C10_subnet_count_includes_requester
                [OF a b c d e refl g h i j k]
  have six: "countInSubnet ipv4_lib (655360, 24) (map fst ?tracked) = 6"
    by code_simp
  from inst have "countInSubnet ipv4_lib (655360, 24) (map fst ?tracked) = int ?others + 1"
    by blast
  with six have others: "?others = 5"
    by simp
  then have "5 \<le> ?others"
    by simp
  with inst
  have r: "\<not> Allowed (fst (CheckRequest ipv4_lib crowded_detector ''10.0.0.1'' ''aura1a''
                              example_clock))
     \<and> Reason (fst (CheckRequest ipv4_lib crowded_detector ''10.0.0.1'' ''aura1a''
                        example_clock))
         = ''Multiple requests detected from your subnet''"
    by blast
  have six': "countInSubnet ipv4_lib (655360, 24)
        (map fst (snd (getOrCreateTracker (ipAttempts crowded_detector) ''10.0.0.1''
                         (t_create example_clock)))) = 6"
    using six unfolding g by simp
  from a b c d e others six' r show ?thesis
    by blast
qed

lemma length_alist_update:
  "length (AList.update k v al)
     = (if k \<in> fst ` set al then length al else Suc (length al))"
  by (induction al) auto

lemma short_list_no_subnet_abuse:
  "length (ipAttempts ad) \<le> 5 \<Longrightarrow> \<not> checkSubnetAbuse lib ad ip"
proof -
  assume len: "length (ipAttempts ad) \<le> 5"
  have "countInSubnet lib subnet (map fst (ipAttempts ad)) \<le> 5" for subnet
  proof -
    have "length (filter (inSubnet lib subnet) (map fst (ipAttempts ad)))
            \<le> length (ipAttempts ad)"
      by (metis length_filter_le length_map)
    with len have "length (filter (inSubnet lib subnet) (map fst (ipAttempts ad))) \<le> 5"
      by linarith
    then show ?thesis
      unfolding countInSubnet_filter by linarith
  qed
  then show ?thesis
    by (auto simp add: checkSubnetAbuse_def not_less split: option.splits)
qed

lemma checkHeuristics_allowed:
  assumes "\<not> SubnetCheckEnabled (config ad) \<or> length (ipAttempts ad) \<le> 5"
    and "Allowed result"
  shows "Allowed (fst (checkHeuristics lib ad ip tr result))
       \<and> snd (checkHeuristics lib ad ip tr result) = ad"
proof -
  from assms(1) have "\<not> (SubnetCheckEnabled (config ad) \<and> checkSubnetAbuse lib ad ip)"
    using short_list_no_subnet_abuse [of ad lib ip] by blast
  with assms(2) show ?thesis
    by (simp add: checkHeuristics_def Let_def)
qed

lemma unblocked_idem:
  assumes "blockedIPs ad ip = None" and "blockedAddrs ad address = None"
  shows "CheckRequest lib ad ip address clk = checkTracker lib ad ip address clk"
proof -
  have "ad\<lparr>blockedIPs := (blockedIPs ad)(ip := None),
            blockedAddrs := (blockedAddrs ad)(address := None)\<rparr> = ad"
    using assms by (simp add: fun_upd_idem)
  with CheckRequest_unblocked [of ad ip clk address lib] assms show ?thesis
    by (simp add: activeBlock_def)
qed

lemma CheckRequest_first:
  assumes "map_of (ipAttempts ad) ip = None"
    and "blockedIPs ad ip = None" and "blockedAddrs ad address = None"
    and "t_now clk - t_create clk < Hour"
    and "0 < MaxAttemptsPerHour (config ad)" and "0 < MaxAttemptsPerDay (config ad)"
    and "\<not> SubnetCheckEnabled (config ad) \<or> length (ipAttempts ad) < 5"
  shows "Allowed (fst (CheckRequest lib ad ip address clk))"
    and "snd (CheckRequest lib ad ip address clk)
           = ad\<lparr>ipAttempts :=
                  AList.update ip \<lparr>Count = 0, FirstAttempt = t_create clk,
                                   LastAttempt = zeroTime, SuccessfulCount = 0,
                                   FailedCount = 0, Addresses = []\<rparr> (ipAttempts ad)\<rparr>"
proof -
  let ?tr = "\<lparr>Count = 0, FirstAttempt = t_create clk, LastAttempt = zeroTime,
              SuccessfulCount = 0, FailedCount = 0, Addresses = []\<rparr>"
  let ?ad = "ad\<lparr>ipAttempts := AList.update ip ?tr (ipAttempts ad)\<rparr>"
  let ?r = "\<lparr>Allowed = True, Reason = [],
             RiskScore = calculateRiskScore (config ad) ?tr ip address (t_since clk),
             BlockedUntil = None, RecommendedDelay = 0\<rparr>"
  have g: "getOrCreateTracker (ipAttempts ad) ip (t_create clk)
             = (?tr, AList.update ip ?tr (ipAttempts ad))"
    by (simp add: getOrCreateTracker_def assms(1) Let_def)
  have run: "checkTracker lib ad ip address clk = checkHeuristics lib ?ad ip ?tr ?r"
    using assms(4,5,6)
    by (simp add: checkTracker_def g Let_def time_Sub_less_Hour checkDaily_def)
  have "length (AList.update ip ?tr (ipAttempts ad)) \<le> Suc (length (ipAttempts ad))"
    by (simp add: length_alist_update)
  with assms(7)
  have quiet: "\<not> SubnetCheckEnabled (config ?ad) \<or> length (ipAttempts ?ad) \<le> 5"
    by auto
  from checkHeuristics_allowed [OF quiet, of ?r lib ip ?tr]
  show "Allowed (fst (CheckRequest lib ad ip address clk))"
    and "snd (CheckRequest lib ad ip address clk) = ?ad"
    by (simp_all add: unblocked_idem [OF assms(2,3)] run)
qed

lemma CheckRequest_within_limits:
  assumes "map_of (ipAttempts ad) ip = Some tr"
    and "blockedIPs ad ip = None" and "blockedAddrs ad address = None"
    and "t_now clk - FirstAttempt tr < Hour"
    and "Count tr < MaxAttemptsPerHour (config ad)"
    and "SuccessfulCount tr + FailedCount tr < MaxAttemptsPerDay (config ad)"
    and "\<not> SubnetCheckEnabled (config ad) \<or> length (ipAttempts ad) \<le> 5"
  shows "Allowed (fst (CheckRequest lib ad ip address clk))"
    and "snd (CheckRequest lib ad ip address clk) = ad"
proof -
  let ?r = "\<lparr>Allowed = True, Reason = [],
             RiskScore = calculateRiskScore (config ad) tr ip address (t_since clk),
             BlockedUntil = None, RecommendedDelay = 0\<rparr>"
  have g: "getOrCreateTracker (ipAttempts ad) ip (t_create clk) = (tr, ipAttempts ad)"
    by (simp add: getOrCreateTracker_def assms(1))
  have run: "checkTracker lib ad ip address clk = checkHeuristics lib ad ip tr ?r"
    using assms(4,5,6)
    by (simp add: checkTracker_def g Let_def time_Sub_less_Hour checkDaily_def)
  from checkHeuristics_allowed [OF assms(7), of ?r lib ip tr]
  show "Allowed (fst (CheckRequest lib ad ip address clk))"
    and "snd (CheckRequest lib ad ip address clk) = ad"
    by (simp_all add: unblocked_idem [OF assms(2,3)] run)
qed

lemma CheckRequest_hourly_limit:
  assumes "map_of (ipAttempts ad) ip = Some tr"
    and "blockedIPs ad ip = None" and "blockedAddrs ad address = None"
    and "t_now clk - FirstAttempt tr < Hour"
    and "Count tr \<ge> MaxAttemptsPerHour (config ad)"
  shows "fst (CheckRequest lib ad ip address clk)
           = \<lparr>Allowed = False,
              Reason = ''Too many requests from this IP (hourly limit exceeded)'',
              RiskScore = calculateRiskScore (config ad) tr ip address (t_since clk),
              BlockedUntil = None, RecommendedDelay = 0\<rparr>"
    and "snd (CheckRequest lib ad ip address clk) = blockIP ad ip (t_block clk)"
proof -
  have g: "getOrCreateTracker (ipAttempts ad) ip (t_create clk) = (tr, ipAttempts ad)"
    by (simp add: getOrCreateTracker_def assms(1))
  show "fst (CheckRequest lib ad ip address clk)
           = \<lparr>Allowed = False,
              Reason = ''Too many requests from this IP (hourly limit exceeded)'',
              RiskScore = calculateRiskScore (config ad) tr ip address (t_since clk),
              BlockedUntil = None, RecommendedDelay = 0\<rparr>"
    and "snd (CheckRequest lib ad ip address clk) = blockIP ad ip (t_block clk)"
    using assms(4,5)
    by (simp_all add: unblocked_idem [OF assms(2,3)] checkTracker_def g Let_def
        time_Sub_less_Hour)
qed

lemma RecordAttempt_tracked:
  assumes "map_of (ipAttempts ad) ip = Some tr"
  shows "\<exists>tr'. map_of (ipAttempts (RecordAttempt ad ip address success rc)) ip = Some tr'
           \<and> Count tr' = Count tr + 1
           \<and> FirstAttempt tr' = FirstAttempt tr
           \<and> SuccessfulCount tr' + FailedCount tr' = SuccessfulCount tr + FailedCount tr + 1"
    and "length (ipAttempts (RecordAttempt ad ip address success rc)) = length (ipAttempts ad)"
    and "blockedIPs (RecordAttempt ad ip address success rc) = blockedIPs ad"
    and "blockedAddrs (RecordAttempt ad ip address success rc) = blockedAddrs ad"
    and "config (RecordAttempt ad ip address success rc) = config ad"
proof -
  have g: "getOrCreateTracker (ipAttempts ad) ip (r_createIP rc) = (tr, ipAttempts ad)"
    by (simp add: getOrCreateTracker_def assms)
  obtain atr atrs where
    h: "getOrCreateTracker (addressAttempts ad) address (r_createAddr rc) = (atr, atrs)"
    by (cases "getOrCreateTracker (addressAttempts ad) address (r_createAddr rc)")
  have key: "ip \<in> fst ` set (ipAttempts ad)"
    using assms by (metis domI dom_map_of_conv_image_fst)
  show "\<exists>tr'. map_of (ipAttempts (RecordAttempt ad ip address success rc)) ip = Some tr'
           \<and> Count tr' = Count tr + 1
           \<and> FirstAttempt tr' = FirstAttempt tr
           \<and> SuccessfulCount tr' + FailedCount tr' = SuccessfulCount tr + FailedCount tr + 1"
    by (cases success) (simp_all add: RecordAttempt_def g h Let_def update_conv')
  show "length (ipAttempts (RecordAttempt ad ip address success rc)) = length (ipAttempts ad)"
    using key by (simp add: RecordAttempt_def g h Let_def length_alist_update)
  show "blockedIPs (RecordAttempt ad ip address success rc) = blockedIPs ad"
    and "blockedAddrs (RecordAttempt ad ip address success rc) = blockedAddrs ad"
    and "config (RecordAttempt ad ip address success rc) = config ad"
    by (simp_all add: RecordAttempt_def g h Let_def)
qed

text \<open>
  Claim C2. Let the configured hourly maximum be 3 and the daily maximum at least 3 (the
  default is 50). Start from a detector that holds no block for the IP or the address and
  has not tracked the IP yet, and in which the subnet check cannot fire (it is disabled,
  or fewer than five IPs are tracked); a new detector is such a state. Three consecutive
  cycles of \<open>CheckRequest\<close> and \<open>RecordAttempt\<close> for the same IP and address (with
  any outcomes recorded), each check within one hour of the first, all report
  \<open>Allowed = true\<close>. The fourth \<open>CheckRequest\<close>, within the same hour, reports
  \<open>Allowed = false\<close> with reason "Too many requests from this IP (hourly limit
  exceeded)", and records a block for the IP that ends the configured block duration
  after the clock reading taken by \<open>blockIP\<close>.
\<close>

theorem C2_fourth_request_hits_hourly_limit:
  assumes "MaxAttemptsPerHour (config ad0) = 3"
    and "3 \<le> MaxAttemptsPerDay (config ad0)"
    and "map_of (ipAttempts ad0) ip = None"
    and "\<not> SubnetCheckEnabled (config ad0) \<or> length (ipAttempts ad0) < 5"
    and "blockedIPs ad0 ip = None"
    and "blockedAddrs ad0 address = None"
    and "CheckRequest lib ad0 ip address c1 = (r1, a1)"
    and "b1 = RecordAttempt a1 ip address s1 k1"
    and "CheckRequest lib b1 ip address c2 = (r2, a2)"
    and "b2 = RecordAttempt a2 ip address s2 k2"
    and "CheckRequest lib b2 ip address c3 = (r3, a3)"
    and "b3 = RecordAttempt a3 ip address s3 k3"
    and "CheckRequest lib b3 ip address c4 = (r4, a4)"
    and "t_now c1 - t_create c1 < Hour"
    and "t_now c2 - t_create c1 < Hour"
    and "t_now c3 - t_create c1 < Hour"
    and "t_now c4 - t_create c1 < Hour"
  shows "Allowed r1 \<and> Allowed r2 \<and> Allowed r3
       \<and> \<not> Allowed r4
       \<and> Reason r4 = ''Too many requests from this IP (hourly limit exceeded)''
       \<and> blockedIPs a4 ip = Some (time_Add (t_block c4) (BlockDuration (config ad0)))"
proof -
  let ?t0 = "t_create c1"
  let ?tr0 = "\<lparr>Count = 0, FirstAttempt = ?t0, LastAttempt = zeroTime,
               SuccessfulCount = 0, FailedCount = 0, Addresses = []\<rparr>"
  \<comment> \<open>first cycle\<close>
  have lim: "0 < MaxAttemptsPerHour (config ad0)" "0 < MaxAttemptsPerDay (config ad0)"
    using assms(1,2) by simp_all
  from CheckRequest_first [OF assms(3,5,6,14) lim assms(4), of lib] assms(7)
  have r1: "Allowed r1"
    and a1: "a1 = ad0\<lparr>ipAttempts := AList.update ip ?tr0 (ipAttempts ad0)\<rparr>"
    by simp_all
  have a1_ip: "map_of (ipAttempts a1) ip = Some ?tr0"
    by (simp add: a1 update_conv')
  have "length (AList.update ip ?tr0 (ipAttempts ad0)) \<le> Suc (length (ipAttempts ad0))"
    by (simp add: length_alist_update)
  with assms(4) have a1_quiet: "\<not> SubnetCheckEnabled (config ad0) \<or> length (ipAttempts a1) \<le> 5"
    by (auto simp add: a1)
  from RecordAttempt_tracked [OF a1_ip, of address s1 k1]
  obtain tr1 where b1_ip: "map_of (ipAttempts b1) ip = Some tr1"
    and tr1: "Count tr1 = 1" "FirstAttempt tr1 = ?t0"
      "SuccessfulCount tr1 + FailedCount tr1 = 1"
    and b1_len: "length (ipAttempts b1) = length (ipAttempts a1)"
    and b1_rest: "blockedIPs b1 = blockedIPs ad0" "blockedAddrs b1 = blockedAddrs ad0"
      "config b1 = config ad0"
    unfolding assms(8) by (auto simp add: a1)
  \<comment> \<open>second cycle\<close>
  have b1_quiet: "\<not> SubnetCheckEnabled (config b1) \<or> length (ipAttempts b1) \<le> 5"
    using a1_quiet b1_len b1_rest by simp
  have "Allowed (fst (CheckRequest lib b1 ip address c2))"
    and "snd (CheckRequest lib b1 ip address c2) = b1"
    using assms(1,2,5,6,15) tr1 b1_rest b1_quiet
    by (auto intro!: CheckRequest_within_limits [OF b1_ip])
  with assms(9) have r2: "Allowed r2" and a2: "a2 = b1"
    by simp_all
  have a2_ip: "map_of (ipAttempts a2) ip = Some tr1"
    by (simp add: a2 b1_ip)
  from RecordAttempt_tracked [OF a2_ip, of address s2 k2]
  obtain tr2 where b2_ip: "map_of (ipAttempts b2) ip = Some tr2"
    and tr2: "Count tr2 = 2" "FirstAttempt tr2 = ?t0"
      "SuccessfulCount tr2 + FailedCount tr2 = 2"
    and b2_len: "length (ipAttempts b2) = length (ipAttempts b1)"
    and b2_rest: "blockedIPs b2 = blockedIPs ad0" "blockedAddrs b2 = blockedAddrs ad0"
      "config b2 = config ad0"
    unfolding assms(10) using tr1 b1_rest by (auto simp add: a2)
  \<comment> \<open>third cycle\<close>
  have b2_quiet: "\<not> SubnetCheckEnabled (config b2) \<or> length (ipAttempts b2) \<le> 5"
    using b1_quiet b2_len b1_rest b2_rest by simp
  have "Allowed (fst (CheckRequest lib b2 ip address c3))"
    and "snd (CheckRequest lib b2 ip address c3) = b2"
    using assms(1,2,5,6,16) tr2 b2_rest b2_quiet
    by (auto intro!: CheckRequest_within_limits [OF b2_ip])
  with assms(11) have r3: "Allowed r3" and a3: "a3 = b2"
    by simp_all
  have a3_ip: "map_of (ipAttempts a3) ip = Some tr2"
    by (simp add: a3 b2_ip)
  from RecordAttempt_tracked [OF a3_ip, of address s3 k3]
  obtain tr3 where b3_ip: "map_of (ipAttempts b3) ip = Some tr3"
    and tr3: "Count tr3 = 3" "FirstAttempt tr3 = ?t0"
    and b3_rest: "blockedIPs b3 = blockedIPs ad0" "blockedAddrs b3 = blockedAddrs ad0"
      "config b3 = config ad0"
    unfolding assms(12) using tr2 b2_rest by (auto simp add: a3)
  \<comment> \<open>fourth check\<close>
  have free: "blockedIPs b3 ip = None" "blockedAddrs b3 address = None"
    using assms(5,6) b3_rest by simp_all
  have window: "t_now c4 - FirstAttempt tr3 < Hour"
    using assms(17) tr3 by simp
  have full: "Count tr3 \<ge> MaxAttemptsPerHour (config b3)"
    using assms(1) tr3 b3_rest by simp
  from CheckRequest_hourly_limit [OF b3_ip free window full, of lib] assms(13)
  have r4: "r4 = \<lparr>Allowed = False,
                   Reason = ''Too many requests from this IP (hourly limit exceeded)'',
                   RiskScore = calculateRiskScore (config b3) tr3 ip address (t_since c4),
                   BlockedUntil = None, RecommendedDelay = 0\<rparr>"
    and a4: "a4 = blockIP b3 ip (t_block c4)"
    by simp_all
  have blocked: "blockedIPs a4 ip = Some (time_Add (t_block c4) (BlockDuration (config ad0)))"
    by (simp add: a4 blockIP_def b3_rest)
  from r1 r2 r3 blocked show ?thesis
    by (simp add: r4)
qed

theorem C2_fourth_request_hits_hourly_limit_witness:
  "MaxAttemptsPerHour (config test_detector) = 3
   \<and> MaxAttemptsPerDay (config test_detector) = 50
   \<and> map_of (ipAttempts test_detector) ''192.0.2.1'' = None
   \<and> \<not> SubnetCheckEnabled (config test_detector)
   \<and> blockedIPs test_detector ''192.0.2.1'' = None
   \<and> blockedAddrs test_detector ''aura1test'' = None
   \<and> t_now (clock_at (3 * Minute)) - t_create (clock_at 0) < Hour
   \<and> Allowed (fst (CheckRequest ipv4_lib test_detector ''192.0.2.1'' ''aura1test'' (clock_at 0)))
   \<and> Allowed (fst (CheckRequest ipv4_lib (test_cycle test_detector 0)
                      ''192.0.2.1'' ''aura1test'' (clock_at Minute)))
   \<and> Allowed (fst (CheckRequest ipv4_lib (test_cycle (test_cycle test_detector 0) Minute)
                      ''192.0.2.1'' ''aura1test'' (clock_at (2 * Minute))))
   \<and> \<not> Allowed (fst (CheckRequest ipv4_lib
                        (test_cycle (test_cycle (test_cycle test_detector 0) Minute) (2 * Minute))
                        ''192.0.2.1'' ''aura1test'' (clock_at (3 * Minute))))
   \<and> Reason (fst (CheckRequest ipv4_lib
                     (test_cycle (test_cycle (test_cycle test_detector 0) Minute) (2 * Minute))
                     ''192.0.2.1'' ''aura1test'' (clock_at (3 * Minute))))
       = ''Too many requests from this IP (hourly limit exceeded)''
   \<and> blockedIPs (snd (CheckRequest ipv4_lib
                         (test_cycle (test_cycle (test_cycle test_detector 0) Minute) (2 * Minute))
                         ''192.0.2.1'' ''aura1test'' (clock_at (3 * Minute)))) ''192.0.2.1''
       = Some (4 * Minute + 5)"
proof -
  let ?ip = "''192.0.2.1''" and ?addr = "''aura1test''"
  let ?b1 = "test_cycle test_detector 0"
  let ?b2 = "test_cycle ?b1 Minute"
  let ?b3 = "test_cycle ?b2 (2 * Minute)"
  have cfg: "config test_detector =
               \<lparr>MaxAttemptsPerHour = 3, MaxAttemptsPerDay = 50, BlockDuration = Minute,
                SubnetCheckEnabled = False, VPNDetectionEnabled = False,
                SuspiciousThreshold = 5\<rparr>"
    by (simp add: test_detector_def NewAbuseDetector_def Let_def Minute_def Second_def)
  have h1: "MaxAttemptsPerHour (config test_detector) = 3"
    and h2: "3 \<le> MaxAttemptsPerDay (config test_detector)"
    and h2': "MaxAttemptsPerDay (config test_detector) = 50"
    by (simp_all add: cfg)
  have h3: "map_of (ipAttempts test_detector) ?ip = None"
    and h4: "blockedIPs test_detector ?ip = None"
    and h5: "blockedAddrs test_detector ?addr = None"
    by (simp_all add: test_detector_def NewAbuseDetector_def Let_def)
  have q: "\<not> SubnetCheckEnabled (config test_detector)"
    by (simp add: cfg)
  then have hq: "\<not> SubnetCheckEnabled (config test_detector)
                 \<or> length (ipAttempts test_detector) < 5"
    by simp
  have w1: "t_now (clock_at 0) - t_create (clock_at 0) < Hour"
    and w2: "t_now (clock_at Minute) - t_create (clock_at 0) < Hour"
    and w3: "t_now (clock_at (2 * Minute)) - t_create (clock_at 0) < Hour"
    and w4: "t_now (clock_at (3 * Minute)) - t_create (clock_at 0) < Hour"
    by (simp_all add: clock_at_def Hour_def Minute_def Second_def)
  have e1: "CheckRequest ipv4_lib test_detector ?ip ?addr (clock_at 0)
              = (fst (CheckRequest ipv4_lib test_detector ?ip ?addr (clock_at 0)),
                 snd (CheckRequest ipv4_lib test_detector ?ip ?addr (clock_at 0)))"
    and e2: "CheckRequest ipv4_lib ?b1 ?ip ?addr (clock_at Minute)
              = (fst (CheckRequest ipv4_lib ?b1 ?ip ?addr (clock_at Minute)),
                 snd (CheckRequest ipv4_lib ?b1 ?ip ?addr (clock_at Minute)))"
    and e3: "CheckRequest ipv4_lib ?b2 ?ip ?addr (clock_at (2 * Minute))
              = (fst (CheckRequest ipv4_lib ?b2 ?ip ?addr (clock_at (2 * Minute))),
                 snd (CheckRequest ipv4_lib ?b2 ?ip ?addr (clock_at (2 * Minute))))"
    and e4: "CheckRequest ipv4_lib ?b3 ?ip ?addr (clock_at (3 * Minute))
              = (fst (CheckRequest ipv4_lib ?b3 ?ip ?addr (clock_at (3 * Minute))),
                 snd (CheckRequest ipv4_lib ?b3 ?ip ?addr (clock_at (3 * Minute))))"
    by simp_all
  have f1: "?b1 = RecordAttempt (snd (CheckRequest ipv4_lib test_detector ?ip ?addr (clock_at 0)))
                    ?ip ?addr False (record_clock_at (0 + 10))"
    and f2: "?b2 = RecordAttempt (snd (CheckRequest ipv4_lib ?b1 ?ip ?addr (clock_at Minute)))
                    ?ip ?addr False (record_clock_at (Minute + 10))"
    and f3: "?b3 = RecordAttempt
                     (snd (CheckRequest ipv4_lib ?b2 ?ip ?addr (clock_at (2 * Minute))))
                     ?ip ?addr False (record_clock_at (2 * Minute + 10))"
    by (rule test_cycle_def)+
  note inst = C2_fourth_request_hits_hourly_limit
                [OF h1 h2 h3 hq h4 h5 e1 f1 e2 f2 e3 f3 e4 w1 w2 w3 w4]
  have d: "time_Add (t_block (clock_at (3 * Minute))) (BlockDuration (config test_detector))
             = 4 * Minute + 5"
    by (simp add: cfg time_Add_def clock_at_def)
  from inst h1 h2' h3 q h4 h5 w4 show ?thesis
    unfolding d by blast
qed

end
